theory Spec2Isabelle
  imports Complex_Main "HOL-Library.Multiset" "HOL-Library.Option_ord"
begin

section \<open>JavaScript values as the front end sees them\<close>

text \<open>
  The records arriving from the REST endpoints are JSON objects whose fields hold JSON
  scalars; a field that is absent reads as \<open>undefined\<close>. A number is \<open>NaN\<close>, an
  infinity, or a finite value; every finite double is a rational, and the operations
  used by \<^verbatim>\<open>App.jsx\<close> on finite numbers (\<open>toFixed\<close>, \<open>Math.round\<close>, comparison) are
  defined by ECMAScript on the mathematical value, so finite numbers are modelled as
  \<^typ>\<open>rat\<close>. Negative zero is identified with zero.
\<close>

datatype jsnum = NaN | PInf | NInf | Fin rat

datatype jsval = JUndefined | JNull | JBool bool | JNum jsnum | JStr string

text \<open>
  What the JavaScript engine decides and the source does not: how a string converts to
  a number, how \<open>Date\<close> parses a string (\<open>None\<close> is an invalid date, \<open>Some ms\<close> the epoch
  milliseconds), how a date prints in the user's locale, and how a number of magnitude
  \<open>10^21\<close> or more prints. They are parameters of every definition below that needs them.
\<close>

record host =
  StringToNumber :: "string \<Rightarrow> jsnum"
  Date_parse :: "string \<Rightarrow> int option"
  Date_toLocaleString :: "int option \<Rightarrow> string"
  Number_toString :: "rat \<Rightarrow> string"

fun ToNumber :: "host \<Rightarrow> jsval \<Rightarrow> jsnum" where
  "ToNumber h JUndefined = NaN"
| "ToNumber h JNull = Fin 0"
| "ToNumber h (JBool b) = Fin (if b then 1 else 0)"
| "ToNumber h (JNum n) = n"
| "ToNumber h (JStr s) = StringToNumber h s"

text \<open>\<^verbatim>\<open>v != null\<close>: loose inequality, false for both \<open>null\<close> and \<open>undefined\<close>.\<close>

fun not_nullish :: "jsval \<Rightarrow> bool" where
  "not_nullish JUndefined = False"
| "not_nullish JNull = False"
| "not_nullish v = True"

definition isNaN :: "host \<Rightarrow> jsval \<Rightarrow> bool" where
  "isNaN h v = (ToNumber h v = NaN)"

fun truthy_num :: "jsnum \<Rightarrow> bool" where
  "truthy_num NaN = False"
| "truthy_num (Fin x) = (x \<noteq> 0)"
| "truthy_num n = True"

fun truthy :: "jsval \<Rightarrow> bool" where
  "truthy JUndefined = False"
| "truthy JNull = False"
| "truthy (JBool b) = b"
| "truthy (JNum n) = truthy_num n"
| "truthy (JStr s) = (s \<noteq> [])"

text \<open>\<^verbatim>\<open>a || b\<close> on values.\<close>

definition js_or :: "jsval \<Rightarrow> jsval \<Rightarrow> jsval" where
  "js_or a b = (if truthy a then a else b)"

text \<open>
  \<^verbatim>\<open>new Date(v).getTime()\<close>: a string is parsed; any other value is converted to a
  number and clipped (\<open>TimeClip\<close>: not finite or beyond \<open>8.64e15\<close> ms is an invalid date,
  otherwise the fraction is cut off towards zero).
\<close>

definition trunc_rat :: "rat \<Rightarrow> int" where
  "trunc_rat x = (if 0 \<le> x then \<lfloor>x\<rfloor> else \<lceil>x\<rceil>)"

fun TimeClip :: "jsnum \<Rightarrow> int option" where
  "TimeClip (Fin x) = (if \<bar>x\<bar> > 8640000000000000 then None else Some (trunc_rat x))"
| "TimeClip n = None"

fun Date_getTime :: "host \<Rightarrow> jsval \<Rightarrow> int option" where
  "Date_getTime h (JStr s) = Date_parse h s"
| "Date_getTime h v = TimeClip (ToNumber h v)"

text \<open>Truthiness of the number \<open>getTime()\<close> returns: \<open>NaN\<close> and \<open>0\<close> are falsy.\<close>

fun truthy_time :: "int option \<Rightarrow> bool" where
  "truthy_time None = False"
| "truthy_time (Some ms) = (ms \<noteq> 0)"

text \<open>
  \<^verbatim>\<open>new Date(v).getTime() / 1000\<close>. The source evaluates it only behind the validity
  filter, where the time is a number; an invalid date would give \<open>NaN\<close>, which the
  \<open>None\<close> case stands for. The quotient is kept exact: for epoch milliseconds (at most
  \<open>8.64e15\<close> in magnitude) rounding to a double preserves both order and distinctness.
\<close>

fun seconds :: "int option \<Rightarrow> rat option" where
  "seconds None = None"
| "seconds (Some ms) = Some (of_int ms / 1000)"

section \<open>Validator/Normalizer and Marker Builder (chart-update effect, lines 213--271)\<close>

record signal =
  s_timestamp :: jsval
  s_price :: jsval
  s_rsi :: jsval
  s_signal :: jsval

record trade =
  t_timestamp :: jsval
  t_action :: jsval
  t_reason :: jsval
  t_price :: jsval

record chartpoint =
  time :: "rat option"
  cvalue :: jsnum

record marker =
  m_time :: "rat option"
  position :: string
  color :: string
  shape :: string
  mtext :: jsval

definition price_valid :: "host \<Rightarrow> signal \<Rightarrow> bool" where
  "price_valid h s =
     (not_nullish (s_price s) \<and> \<not> isNaN h (s_price s)
      \<and> truthy_time (Date_getTime h (s_timestamp s)))"

definition rsi_valid :: "host \<Rightarrow> signal \<Rightarrow> bool" where
  "rsi_valid h s =
     (not_nullish (s_rsi s) \<and> \<not> isNaN h (s_rsi s)
      \<and> truthy_time (Date_getTime h (s_timestamp s)))"

definition priceData :: "host \<Rightarrow> signal list \<Rightarrow> chartpoint list" where
  "priceData h sigs =
     map (\<lambda>s. \<lparr>time = seconds (Date_getTime h (s_timestamp s)),
               cvalue = ToNumber h (s_price s)\<rparr>)
         (filter (price_valid h) sigs)"

definition rsiData :: "host \<Rightarrow> signal list \<Rightarrow> chartpoint list" where
  "rsiData h sigs =
     map (\<lambda>s. \<lparr>time = seconds (Date_getTime h (s_timestamp s)),
               cvalue = ToNumber h (s_rsi s)\<rparr>)
         (filter (rsi_valid h) sigs)"

text \<open>\<^verbatim>\<open>s.signal === 1\<close>: strict equality with a number.\<close>

definition buy_valid :: "host \<Rightarrow> signal \<Rightarrow> bool" where
  "buy_valid h s = (s_signal s = JNum (Fin 1) \<and> price_valid h s)"

definition sell_valid :: "host \<Rightarrow> signal \<Rightarrow> bool" where
  "sell_valid h s = (s_signal s = JNum (Fin (- 1)) \<and> price_valid h s)"

definition buySignals :: "host \<Rightarrow> signal list \<Rightarrow> marker list" where
  "buySignals h sigs =
     map (\<lambda>s. \<lparr>m_time = seconds (Date_getTime h (s_timestamp s)),
               position = ''belowBar'', color = ''green'', shape = ''arrowUp'',
               mtext = JStr ''BUY''\<rparr>)
         (filter (buy_valid h) sigs)"

definition sellSignals :: "host \<Rightarrow> signal list \<Rightarrow> marker list" where
  "sellSignals h sigs =
     map (\<lambda>s. \<lparr>m_time = seconds (Date_getTime h (s_timestamp s)),
               position = ''aboveBar'', color = ''red'', shape = ''arrowDown'',
               mtext = JStr ''SELL''\<rparr>)
         (filter (sell_valid h) sigs)"

definition trade_valid :: "host \<Rightarrow> trade \<Rightarrow> bool" where
  "trade_valid h t =
     (truthy (t_timestamp t) \<and> truthy (t_action t) \<and> truthy (t_reason t)
      \<and> not_nullish (t_price t) \<and> \<not> isNaN h (t_price t)
      \<and> truthy_time (Date_getTime h (t_timestamp t)))"

text \<open>\<^verbatim>\<open>['Buy', 'Cover'].includes(t.action)\<close>.\<close>

definition buy_or_cover :: "jsval \<Rightarrow> bool" where
  "buy_or_cover a = (a = JStr ''Buy'' \<or> a = JStr ''Cover'')"

definition trade_marker :: "host \<Rightarrow> trade \<Rightarrow> marker" where
  "trade_marker h t =
     \<lparr>m_time = seconds (Date_getTime h (t_timestamp t)),
      position = (if buy_or_cover (t_action t) then ''belowBar'' else ''aboveBar''),
      color = (if buy_or_cover (t_action t) then ''green'' else ''red''),
      shape = ''circle'',
      mtext = js_or (t_reason t) (JStr ''Trade'')\<rparr>"

definition tradeMarkers :: "host \<Rightarrow> trade list \<Rightarrow> marker list" where
  "tradeMarkers h trs = map (trade_marker h) (filter (trade_valid h) trs)"

text \<open>
  \<^verbatim>\<open>[...buySignals, ...sellSignals].sort((a, b) => a.time - b.time)\<close>.
  \<open>Array.prototype.sort\<close> is stable, and every marker that reaches it has a finite
  time (\<open>Some\<close>), so the comparator is a consistent order and the result is the one
  stable arrangement by time; \<^const>\<open>sort_key\<close> computes it (on \<^typ>\<open>rat option\<close> the
  order puts \<open>None\<close> first, which no marker here has).
\<close>

definition signalMarkers :: "host \<Rightarrow> signal list \<Rightarrow> marker list" where
  "signalMarkers h sigs = sort_key m_time (buySignals h sigs @ sellSignals h sigs)"

section \<open>Metric Formatter (\<^verbatim>\<open>formatMetric\<close>, lines 337--355)\<close>

text \<open>The character of a decimal digit.\<close>

definition digit_char :: "nat \<Rightarrow> char" where
  "digit_char n = ''0123456789'' ! (n mod 10)"

text \<open>The decimal digits of a non-negative integer, most significant first.\<close>

fun show_nat :: "nat \<Rightarrow> string" where
  "show_nat n = (if n < 10 then [digit_char n] else show_nat (n div 10) @ [digit_char (n mod 10)])"

declare show_nat.simps [simp del]

text \<open>
  \<^verbatim>\<open>Number.prototype.toFixed(f)\<close> as ECMAScript defines it: a number that is not finite
  prints by name; one of magnitude \<open>10^21\<close> or more prints as \<open>toString\<close> does; otherwise
  the sign is split off, \<open>n\<close> is the integer with \<open>n / 10^f\<close> nearest to the magnitude
  (the larger one on a tie), and its digits, padded with zeros to \<open>f + 1\<close> places, get the
  point before the last \<open>f\<close>.
\<close>

definition toFixed :: "host \<Rightarrow> nat \<Rightarrow> jsnum \<Rightarrow> string" where
  "toFixed h f v =
     (case v of
        NaN \<Rightarrow> ''NaN''
      | PInf \<Rightarrow> ''Infinity''
      | NInf \<Rightarrow> ''-Infinity''
      | Fin x \<Rightarrow>
          if \<bar>x\<bar> \<ge> 10 ^ 21 then Number_toString h x
          else
            let sgn = (if x < 0 then ''-'' else []);
                n = nat \<lfloor>\<bar>x\<bar> * 10 ^ f + 1 / 2\<rfloor>;
                m = show_nat n;
                m = (if f \<noteq> 0 \<and> length m \<le> f then replicate (f + 1 - length m) CHR ''0'' @ m else m);
                k = length m
            in if f \<noteq> 0 then sgn @ take (k - f) m @ ''.'' @ drop (k - f) m else sgn @ m)"

text \<open>\<^verbatim>\<open>Math.round\<close>: the nearest integer, the one towards \<open>+\<infinity>\<close> on a tie.\<close>

fun Math_round :: "jsnum \<Rightarrow> jsnum" where
  "Math_round (Fin x) = Fin (of_int \<lfloor>x + 1 / 2\<rfloor>)"
| "Math_round n = n"

text \<open>
  The currency sign of line 352 is U+20B9; strings are the bytes of the source file,
  which is UTF-8, so the sign is the three bytes \<open>E2 82 B9\<close>.
\<close>

definition rupee :: string where
  "rupee = [CHR 0xE2, CHR 0x82, CHR 0xB9]"

text \<open>
  \<^verbatim>\<open>formatMetric(value, key)\<close>. The result is a JavaScript value: every branch but the
  last returns a string, the last returns what \<^verbatim>\<open>Math.round(value)\<close> returns.
\<close>

definition formatMetric :: "host \<Rightarrow> jsval \<Rightarrow> string \<Rightarrow> jsval" where
  "formatMetric h v key =
     (if \<not> not_nullish v then JStr ''N/A''
      else if key \<in> set [''max_drawdown_start'', ''max_drawdown_end'']
        then JStr (Date_toLocaleString h (Date_getTime h v))
      else if key \<in> set [''annualized_return'', ''max_drawdown'', ''win_rate'']
        then JStr (toFixed h 2 (ToNumber h v) @ ''%'')
      else if key \<in> set [''sharpe_ratio'', ''sortino_ratio'', ''calmar_ratio'', ''profit_factor'']
        then JStr (toFixed h 2 (ToNumber h v))
      else if key = ''avg_trade_duration''
        then JStr (toFixed h 2 (ToNumber h v) @ '' min'')
      else if key = ''final_portfolio_value''
        then JStr (rupee @ toFixed h 2 (ToNumber h v))
      else JNum (Math_round (ToNumber h v)))"

text \<open>The keys of \<^verbatim>\<open>metricDisplay\<close> (lines 358--371), the declared metric key set.\<close>

definition metricDisplay :: "string list" where
  "metricDisplay =
     [''final_portfolio_value'', ''annualized_return'', ''max_drawdown'',
      ''max_drawdown_start'', ''max_drawdown_end'', ''win_rate'', ''sharpe_ratio'',
      ''sortino_ratio'', ''calmar_ratio'', ''profit_factor'', ''total_trades'',
      ''avg_trade_duration'']"

section \<open>The rendering surface\<close>

text \<open>
  The charting library is an external collaborator. A chart is modelled by what the
  source can observe of it: the line series it holds, each under the handle that
  \<^verbatim>\<open>addLineSeries\<close> returned, and the visible logical range of its time scale.
\<close>

record price_line =
  pl_price :: rat
  pl_color :: string
  pl_lineWidth :: nat
  pl_lineStyle :: string

record line_series =
  ls_color :: string
  ls_lineWidth :: nat
  ls_data :: "chartpoint list"
  ls_markers :: "marker list"
  ls_priceLines :: "price_line list"

type_synonym range = "rat \<times> rat"

record chart =
  series :: "(nat \<times> line_series) list"
  nextHandle :: nat
  visibleLogicalRange :: "range option"

definition addLineSeries :: "chart \<Rightarrow> string \<Rightarrow> nat \<Rightarrow> nat \<times> chart" where
  "addLineSeries c col w =
     (nextHandle c,
      c\<lparr>series := series c @ [(nextHandle c,
            \<lparr>ls_color = col, ls_lineWidth = w, ls_data = [], ls_markers = [], ls_priceLines = []\<rparr>)],
        nextHandle := Suc (nextHandle c)\<rparr>)"

definition removeSeries :: "chart \<Rightarrow> nat \<Rightarrow> chart" where
  "removeSeries c k = c\<lparr>series := filter (\<lambda>e. fst e \<noteq> k) (series c)\<rparr>"

definition on_series :: "(line_series \<Rightarrow> line_series) \<Rightarrow> chart \<Rightarrow> nat \<Rightarrow> chart" where
  "on_series f c k = c\<lparr>series := map (\<lambda>e. if fst e = k then (fst e, f (snd e)) else e) (series c)\<rparr>"

definition setData :: "chart \<Rightarrow> nat \<Rightarrow> chartpoint list \<Rightarrow> chart" where
  "setData c k d = on_series (\<lambda>s. s\<lparr>ls_data := d\<rparr>) c k"

definition setMarkers :: "chart \<Rightarrow> nat \<Rightarrow> marker list \<Rightarrow> chart" where
  "setMarkers c k ms = on_series (\<lambda>s. s\<lparr>ls_markers := ms\<rparr>) c k"

definition createPriceLine :: "chart \<Rightarrow> nat \<Rightarrow> price_line \<Rightarrow> chart" where
  "createPriceLine c k pl = on_series (\<lambda>s. s\<lparr>ls_priceLines := ls_priceLines s @ [pl]\<rparr>) c k"

text \<open>
  \<^verbatim>\<open>timeScale().fitContent()\<close> changes the visible range only; which range shows all
  the data is the library's decision, the parameter \<open>fit\<close>.
\<close>

definition fitContent :: "(chart \<Rightarrow> range option) \<Rightarrow> chart \<Rightarrow> chart" where
  "fitContent fit c = c\<lparr>visibleLogicalRange := fit c\<rparr>"

text \<open>
  \<^verbatim>\<open>timeScale().setVisibleLogicalRange(r)\<close> either applies the range or throws; whether a
  chart accepts a range is the library's decision, the parameter \<open>acc\<close>.
\<close>

datatype exn = RenderFailure

definition setVisibleLogicalRange :: "(chart \<Rightarrow> range \<Rightarrow> bool) \<Rightarrow> chart \<Rightarrow> range \<Rightarrow> exn + chart" where
  "setVisibleLogicalRange acc c r =
     (if acc c r then Inr (c\<lparr>visibleLogicalRange := Some r\<rparr>) else Inl RenderFailure)"

section \<open>Component state (\<^verbatim>\<open>useState\<close> and \<^verbatim>\<open>useRef\<close> cells of \<^verbatim>\<open>App\<close>, lines 28--44)\<close>

record app =
  selectedRunId :: string
  signals :: "signal list"
  trades :: "trade list"
  metrics :: "(string \<times> jsval) list option"
  finalPortfolioValue :: jsval
  error :: "string option"
  priceChartInstance :: "chart option"
  tradeChartInstance :: "chart option"
  rsiChartInstance :: "chart option"
  priceSeriesRef :: "nat option"
  tradeSeriesRef :: "nat option"
  rsiSeriesRef :: "nat option"
  isUpdatingTimeScale :: bool

section \<open>Chart refresh (the effect on \<^verbatim>\<open>[signals, trades]\<close>, lines 195--334)\<close>

datatype pane = Price | Trade | Rsi

fun chart_of :: "app \<Rightarrow> pane \<Rightarrow> chart option" where
  "chart_of st Price = priceChartInstance st"
| "chart_of st Trade = tradeChartInstance st"
| "chart_of st Rsi = rsiChartInstance st"

fun put_chart :: "pane \<Rightarrow> chart \<Rightarrow> app \<Rightarrow> app" where
  "put_chart Price c st = st\<lparr>priceChartInstance := Some c\<rparr>"
| "put_chart Trade c st = st\<lparr>tradeChartInstance := Some c\<rparr>"
| "put_chart Rsi c st = st\<lparr>rsiChartInstance := Some c\<rparr>"

fun ref_of :: "app \<Rightarrow> pane \<Rightarrow> nat option" where
  "ref_of st Price = priceSeriesRef st"
| "ref_of st Trade = tradeSeriesRef st"
| "ref_of st Rsi = rsiSeriesRef st"

fun put_ref :: "pane \<Rightarrow> nat option \<Rightarrow> app \<Rightarrow> app" where
  "put_ref Price k st = st\<lparr>priceSeriesRef := k\<rparr>"
| "put_ref Trade k st = st\<lparr>tradeSeriesRef := k\<rparr>"
| "put_ref Rsi k st = st\<lparr>rsiSeriesRef := k\<rparr>"

definition threshold :: "rat \<Rightarrow> string \<Rightarrow> price_line" where
  "threshold p col = \<lparr>pl_price = p, pl_color = col, pl_lineWidth = 1, pl_lineStyle = ''Dashed''\<rparr>"

text \<open>
  The calls the refresh makes to the rendering surface. Each of them either takes
  effect or throws an error that carries a message; which of the two is the library's
  decision, the parameter \<open>rej\<close>: \<open>None\<close> when the call is accepted, \<open>Some m\<close> when it
  throws an error with message \<open>m\<close>.
\<close>

datatype call =
    RemoveSeries chart nat
  | AddLineSeries chart string nat
  | SetData chart nat "chartpoint list"
  | SetMarkers chart nat "marker list"
  | CreatePriceLine chart nat price_line
  | FitContent chart

type_synonym surface = "call \<Rightarrow> string option"

text \<open>What an accepted call does to its chart.\<close>

fun perform :: "(chart \<Rightarrow> range option) \<Rightarrow> call \<Rightarrow> chart" where
  "perform fit (RemoveSeries c k) = removeSeries c k"
| "perform fit (AddLineSeries c col w) = snd (addLineSeries c col w)"
| "perform fit (SetData c k d) = setData c k d"
| "perform fit (SetMarkers c k ms) = setMarkers c k ms"
| "perform fit (CreatePriceLine c k pl) = createPriceLine c k pl"
| "perform fit (FitContent c) = fitContent fit c"

text \<open>
  A statement of the \<^verbatim>\<open>try\<close> block maps the state to the state it leaves and, when it
  ends by an exception, the message of the error thrown.
\<close>

definition surface_call ::
  "surface \<Rightarrow> (chart \<Rightarrow> range option) \<Rightarrow> pane \<Rightarrow> call \<Rightarrow> app \<Rightarrow> string option \<times> app" where
  "surface_call rej fit p cl st =
     (case rej cl of
        Some m \<Rightarrow> (Some m, st)
      | None \<Rightarrow> (None, put_chart p (perform fit cl) st))"

text \<open>
  A method called on a chart or a ref that is \<open>null\<close> throws a \<open>TypeError\<close>. The refresh
  never meets one: the charts are tested at line 196 and each ref is assigned in the
  statement before its first use.
\<close>

definition null_call :: string where
  "null_call = ''Cannot read properties of null''"

text \<open>
  Lines 199--210, for one pane:
  \<^verbatim>\<open>if (ref.current) { chart.removeSeries(ref.current); ref.current = null; }\<close>
\<close>

definition remove_prior ::
  "surface \<Rightarrow> (chart \<Rightarrow> range option) \<Rightarrow> pane \<Rightarrow> app \<Rightarrow> string option \<times> app" where
  "remove_prior rej fit p st =
     (case ref_of st p of
        None \<Rightarrow> (None, st)
      | Some k \<Rightarrow>
          (case chart_of st p of
             None \<Rightarrow> (Some null_call, st)
           | Some c \<Rightarrow>
               (case surface_call rej fit p (RemoveSeries c k) st of
                  (Some m, st') \<Rightarrow> (Some m, st')
                | (None, st') \<Rightarrow> (None, put_ref p None st'))))"

text \<open>Lines 280--282: the source's own \<^verbatim>\<open>throw\<close>.\<close>

definition require_price_data :: "chartpoint list \<Rightarrow> app \<Rightarrow> string option \<times> app" where
  "require_price_data pd st =
     (if pd = [] then (Some ''No valid price data to display.'', st) else (None, st))"

text \<open>\<^verbatim>\<open>ref.current = chart.addLineSeries({ color, lineWidth })\<close> (lines 285, 295, 305).\<close>

definition add_series ::
  "surface \<Rightarrow> (chart \<Rightarrow> range option) \<Rightarrow> pane \<Rightarrow> string \<Rightarrow> nat \<Rightarrow> app \<Rightarrow> string option \<times> app" where
  "add_series rej fit p col w st =
     (case chart_of st p of
        None \<Rightarrow> (Some null_call, st)
      | Some c \<Rightarrow>
          (case surface_call rej fit p (AddLineSeries c col w) st of
             (Some m, st') \<Rightarrow> (Some m, st')
           | (None, st') \<Rightarrow> (None, put_ref p (Some (fst (addLineSeries c col w))) st')))"

text \<open>
  A call on the series a ref holds: \<^verbatim>\<open>ref.current.setData(...)\<close>,
  \<^verbatim>\<open>ref.current.setMarkers(...)\<close>, \<^verbatim>\<open>ref.current.createPriceLine(...)\<close>.
\<close>

definition on_ref ::
  "surface \<Rightarrow> (chart \<Rightarrow> range option) \<Rightarrow> pane \<Rightarrow> (chart \<Rightarrow> nat \<Rightarrow> call) \<Rightarrow> app
     \<Rightarrow> string option \<times> app" where
  "on_ref rej fit p mk st =
     (case chart_of st p of
        None \<Rightarrow> (Some null_call, st)
      | Some c \<Rightarrow>
          (case ref_of st p of
             None \<Rightarrow> (Some null_call, st)
           | Some k \<Rightarrow> surface_call rej fit p (mk c k) st))"

text \<open>\<^verbatim>\<open>chart.timeScale().fitContent()\<close> (lines 326--328).\<close>

definition fit_pane ::
  "surface \<Rightarrow> (chart \<Rightarrow> range option) \<Rightarrow> pane \<Rightarrow> app \<Rightarrow> string option \<times> app" where
  "fit_pane rej fit p st =
     (case chart_of st p of
        None \<Rightarrow> (Some null_call, st)
      | Some c \<Rightarrow> surface_call rej fit p (FitContent c) st)"

text \<open>Statements in sequence: the first exception ends the block.\<close>

fun run_steps :: "(app \<Rightarrow> string option \<times> app) list \<Rightarrow> app \<Rightarrow> string option \<times> app" where
  "run_steps [] st = (None, st)"
| "run_steps (f # fs) st =
     (case f st of
        (Some m, st') \<Rightarrow> (Some m, st')
      | (None, st') \<Rightarrow> run_steps fs st')"

text \<open>
  The \<^verbatim>\<open>try\<close> block of lines 197--328. The series and marker sets of lines 213--271 are
  computed from \<^verbatim>\<open>signals\<close> and \<^verbatim>\<open>trades\<close>, which no statement of the block changes.
\<close>

definition try_block ::
  "surface \<Rightarrow> host \<Rightarrow> (chart \<Rightarrow> range option) \<Rightarrow> app \<Rightarrow> string option \<times> app" where
  "try_block rej h fit st =
     (let pd = priceData h (signals st);
          rd = rsiData h (signals st);
          tm = tradeMarkers h (trades st);
          sm = signalMarkers h (signals st)
      in run_steps
           [remove_prior rej fit Price,
            remove_prior rej fit Trade,
            remove_prior rej fit Rsi,
            require_price_data pd,
            add_series rej fit Price ''#2962FF'' 2,
            on_ref rej fit Price (\<lambda>c k. SetData c k pd),
            on_ref rej fit Price (\<lambda>c k. SetMarkers c k sm),
            add_series rej fit Trade ''#2962FF'' 2,
            on_ref rej fit Trade (\<lambda>c k. SetData c k pd),
            on_ref rej fit Trade (\<lambda>c k. SetMarkers c k tm),
            add_series rej fit Rsi ''#FF6D00'' 2,
            on_ref rej fit Rsi (\<lambda>c k. SetData c k rd),
            on_ref rej fit Rsi (\<lambda>c k. CreatePriceLine c k (threshold 70 ''red'')),
            on_ref rej fit Rsi (\<lambda>c k. CreatePriceLine c k (threshold 30 ''green'')),
            fit_pane rej fit Price,
            fit_pane rej fit Trade,
            fit_pane rej fit Rsi]
           st)"

text \<open>
  The effect: the guard of line 196, the \<^verbatim>\<open>try\<close> block, and the \<^verbatim>\<open>catch\<close> of lines
  329--332, which turns any exception of the block, the source's own or one thrown by
  the rendering surface, into the error message. What the block did before the
  exception stays done.
\<close>

definition updateCharts :: "surface \<Rightarrow> host \<Rightarrow> (chart \<Rightarrow> range option) \<Rightarrow> app \<Rightarrow> app" where
  "updateCharts rej h fit st =
     (case (priceChartInstance st, tradeChartInstance st, rsiChartInstance st) of
        (Some pc, Some tc, Some rc) \<Rightarrow>
          if signals st = [] then st
          else
            (case try_block rej h fit st of
               (None, st') \<Rightarrow> st'
             | (Some m, st') \<Rightarrow> st'\<lparr>error := Some (''Failed to update charts: '' @ m)\<rparr>)
      | _ \<Rightarrow> st)"

section \<open>Run selection and fetch results (lines 58--118 and 381)\<close>

text \<open>
  One event per handler the component registers. A fetch result carries the run id its
  request was issued for; the handlers of lines 63--67, 76--79, 88--92 and 101--105 do
  not look at it. A change of \<^verbatim>\<open>signals\<close> or \<^verbatim>\<open>trades\<close> re-runs the chart refresh.
\<close>

datatype event =
    SelectRun string
  | SignalsFetched string "signal list"
  | SignalsFailed string
  | TradesFetched string "trade list"
  | TradesFailed string
  | MetricsFetched string "(string \<times> jsval) list"
  | MetricsFailed string
  | PortfolioFetched string jsval
  | PortfolioFailed string

fun step :: "surface \<Rightarrow> host \<Rightarrow> (chart \<Rightarrow> range option) \<Rightarrow> app \<Rightarrow> event \<Rightarrow> app" where
  "step rej h fit st (SelectRun r) =
     (if r = selectedRunId st then st
      else if r \<noteq> [] then st\<lparr>selectedRunId := r\<rparr>
      else updateCharts rej h fit
             (st\<lparr>selectedRunId := r, signals := [], trades := [], metrics := None,
                 finalPortfolioValue := JNull, error := None\<rparr>))"
| "step rej h fit st (SignalsFetched rid d) =
     updateCharts rej h fit (st\<lparr>signals := d, error := None\<rparr>)"
| "step rej h fit st (SignalsFailed rid) =
     st\<lparr>error := Some ''Failed to fetch signals. Please try another run.''\<rparr>"
| "step rej h fit st (TradesFetched rid d) = updateCharts rej h fit (st\<lparr>trades := d\<rparr>)"
| "step rej h fit st (TradesFailed rid) =
     st\<lparr>error := Some ''Failed to fetch trades. Please try another run.''\<rparr>"
| "step rej h fit st (MetricsFetched rid m) = st\<lparr>metrics := Some m, error := None\<rparr>"
| "step rej h fit st (MetricsFailed rid) =
     st\<lparr>error := Some ''Failed to fetch metrics. Please try another run.''\<rparr>"
| "step rej h fit st (PortfolioFetched rid v) = st\<lparr>finalPortfolioValue := v, error := None\<rparr>"
| "step rej h fit st (PortfolioFailed rid) =
     st\<lparr>error := Some ''Failed to fetch final portfolio value. Please try another run.''\<rparr>"

definition run :: "surface \<Rightarrow> host \<Rightarrow> (chart \<Rightarrow> range option) \<Rightarrow> app \<Rightarrow> event list \<Rightarrow> app" where
  "run rej h fit st evs = foldl (step rej h fit) st evs"

section \<open>Time-Scale Synchronizer (\<^verbatim>\<open>syncTimeScales\<close>, lines 155--171)\<close>

text \<open>Lines 169--171: each pane is subscribed with the other two as targets.\<close>

fun targets :: "pane \<Rightarrow> pane list" where
  "targets Price = [Trade, Rsi]"
| "targets Trade = [Price, Rsi]"
| "targets Rsi = [Price, Trade]"

text \<open>
  \<^verbatim>\<open>targetCharts.forEach(...)\<close>, lines 161--163: the targets in order; a throw ends the
  loop and leaves what was already applied.
\<close>

fun apply_range_state ::
  "(chart \<Rightarrow> range \<Rightarrow> bool) \<Rightarrow> range \<Rightarrow> pane list \<Rightarrow> app \<Rightarrow> exn option \<times> app" where
  "apply_range_state acc r [] st = (None, st)"
| "apply_range_state acc r (p # ps) st =
     (case chart_of st p of
        None \<Rightarrow> apply_range_state acc r ps st
      | Some c \<Rightarrow>
          (case setVisibleLogicalRange acc c r of
             Inl e \<Rightarrow> (Some e, st)
           | Inr c' \<Rightarrow> apply_range_state acc r ps (put_chart p c' st)))"

definition charts_ready :: "app \<Rightarrow> bool" where
  "charts_ready st =
     (priceChartInstance st \<noteq> None \<and> tradeChartInstance st \<noteq> None \<and> rsiChartInstance st \<noteq> None)"

text \<open>
  The callback of lines 156--166 for a notification from pane \<open>src\<close>. The result is the
  state the cells are left in, and the exception when the callback ends by one. The
  callbacks are registered once all three charts exist (line 169 follows the three
  \<^verbatim>\<open>createChart\<close> calls), so a state lacking a chart has no callback to run, and
  the loop above never meets a missing target.
\<close>

definition onRangeChange :: "(chart \<Rightarrow> range \<Rightarrow> bool) \<Rightarrow> pane \<Rightarrow> app \<Rightarrow> exn option \<times> app" where
  "onRangeChange acc src st =
     (case chart_of st src of
        None \<Rightarrow> (None, st)
      | Some sc \<Rightarrow>
          if \<not> charts_ready st then (None, st)
          else if isUpdatingTimeScale st then (None, st)
          else
            let st1 = st\<lparr>isUpdatingTimeScale := True\<rparr> in
            (case visibleLogicalRange sc of
               None \<Rightarrow> (None, st1\<lparr>isUpdatingTimeScale := False\<rparr>)
             | Some r \<Rightarrow>
                 (case apply_range_state acc r (targets src) st1 of
                    (Some e, st2) \<Rightarrow> (Some e, st2)
                  | (None, st2) \<Rightarrow> (None, st2\<lparr>isUpdatingTimeScale := False\<rparr>))))"

section \<open>Sample inputs\<close>

text \<open>
  A small engine and a few records, for running the definitions on concrete inputs.
  The engine parses three ISO timestamps (the epoch and two bars of 2024-01-01) and no
  other string.
\<close>

definition engine :: host where
  "engine =
     \<lparr>StringToNumber = (\<lambda>s. NaN),
      Date_parse = (\<lambda>s. if s = ''1970-01-01T00:00:00.000Z'' then Some 0
                          else if s = ''2024-01-01T09:15:00.000Z'' then Some 1704100500000
                          else if s = ''2024-01-01T09:16:00.000Z'' then Some 1704100560000
                          else None),
      Date_toLocaleString = (\<lambda>t. case t of None \<Rightarrow> ''Invalid Date'' | Some ms \<Rightarrow> ''1/1/2024, 9:15:00 AM''),
      Number_toString = (\<lambda>x. ''1e+21'')\<rparr>"

definition fit_all :: "chart \<Rightarrow> range option" where
  "fit_all c = (case series c of [] \<Rightarrow> None | e # es \<Rightarrow>
                  (if ls_data (snd e) = [] then None else Some (0, of_nat (length (ls_data (snd e))) - 1)))"

text \<open>A surface that accepts every call of the refresh.\<close>

definition accept_calls :: surface where
  "accept_calls cl = None"



definition accept_all :: "chart \<Rightarrow> range \<Rightarrow> bool" where
  "accept_all c r = True"

definition reject_all :: "chart \<Rightarrow> range \<Rightarrow> bool" where
  "reject_all c r = False"

definition bar1 :: signal where
  "bar1 = \<lparr>s_timestamp = JStr ''2024-01-01T09:15:00.000Z'', s_price = JNum (Fin 100),
           s_rsi = JNum (Fin 25), s_signal = JNum (Fin 1)\<rparr>"

definition bar2 :: signal where
  "bar2 = \<lparr>s_timestamp = JStr ''2024-01-01T09:16:00.000Z'', s_price = JNum (Fin 101),
           s_rsi = JNum (Fin 75), s_signal = JNum (Fin (- 1))\<rparr>"

definition bar_epoch :: signal where
  "bar_epoch = \<lparr>s_timestamp = JStr ''1970-01-01T00:00:00.000Z'', s_price = JNum (Fin 99),
                s_rsi = JNum (Fin 50), s_signal = JNum (Fin 1)\<rparr>"

definition bar_bad :: signal where
  "bar_bad = \<lparr>s_timestamp = JStr ''yesterday'', s_price = JNull,
              s_rsi = JNull, s_signal = JNum (Fin 0)\<rparr>"

text \<open>A sell signal on the bar of 09:15, and a buy signal whose record has no price.\<close>

definition sell15 :: signal where
  "sell15 = \<lparr>s_timestamp = JStr ''2024-01-01T09:15:00.000Z'', s_price = JNum (Fin 100),
             s_rsi = JNum (Fin 75), s_signal = JNum (Fin (- 1))\<rparr>"

definition buy_unpriced :: signal where
  "buy_unpriced = \<lparr>s_timestamp = JStr ''2024-01-01T09:16:00.000Z'', s_price = JNull,
                   s_rsi = JNum (Fin 25), s_signal = JNum (Fin 1)\<rparr>"

definition fill1 :: trade where
  "fill1 = \<lparr>t_timestamp = JStr ''2024-01-01T09:15:00.000Z'', t_action = JStr ''Buy'',
            t_reason = JStr ''RSI oversold'', t_price = JNum (Fin 100)\<rparr>"

definition fill2 :: trade where
  "fill2 = \<lparr>t_timestamp = JStr ''2024-01-01T09:16:00.000Z'', t_action = JStr ''Sell'',
            t_reason = JStr ''RSI overbought'', t_price = JNum (Fin 101)\<rparr>"

definition fill_epoch :: trade where
  "fill_epoch = \<lparr>t_timestamp = JStr ''1970-01-01T00:00:00.000Z'', t_action = JStr ''Buy'',
                 t_reason = JStr ''RSI oversold'', t_price = JNum (Fin 99)\<rparr>"

definition empty_chart :: chart where
  "empty_chart = \<lparr>series = [], nextHandle = 0, visibleLogicalRange = None\<rparr>"

text \<open>The component after mount: nothing selected, the three charts created.\<close>

definition mounted :: app where
  "mounted =
     \<lparr>selectedRunId = [], signals = [], trades = [], metrics = None,
      finalPortfolioValue = JNull, error = None,
      priceChartInstance = Some empty_chart, tradeChartInstance = Some empty_chart,
      rsiChartInstance = Some empty_chart,
      priceSeriesRef = None, tradeSeriesRef = None, rsiSeriesRef = None,
      isUpdatingTimeScale = False\<rparr>"

text \<open>Run \<open>R1\<close> selected and all four of its responses arrived.\<close>

definition shown_R1 :: app where
  "shown_R1 =
     run accept_calls engine fit_all mounted
       [SelectRun ''R1'', SignalsFetched ''R1'' [bar1], TradesFetched ''R1'' [fill1],
        MetricsFetched ''R1'' [(''total_trades'', JNum (Fin 1))],
        PortfolioFetched ''R1'' (JNum (Fin 1000))]"



text \<open>Run \<open>R2\<close> selected next, and its trades response the first to arrive.\<close>

definition reselected_R2 :: app where
  "reselected_R2 = step accept_calls engine fit_all shown_R1 (SelectRun ''R2'')"

definition mixed_R1_R2 :: app where
  "mixed_R1_R2 = step accept_calls engine fit_all reselected_R2 (TradesFetched ''R2'' [fill2])"

text \<open>A pane that holds no data has no visible range; the other two show bars 0 to 10.\<close>

definition ranged_chart :: chart where
  "ranged_chart = \<lparr>series = [], nextHandle = 0, visibleLogicalRange = Some (0, 10)\<rparr>"

definition price_blank :: app where
  "price_blank = mounted\<lparr>tradeChartInstance := Some ranged_chart, rsiChartInstance := Some ranged_chart\<rparr>"

definition price_zoomed :: app where
  "price_zoomed = mounted\<lparr>priceChartInstance := Some ranged_chart\<rparr>"




text \<open>The price pane after a throw of the trade pane, which accepts no range.\<close>

definition after_throw :: app where
  "after_throw = snd (onRangeChange reject_all Price price_zoomed)"

section \<open>Vocabulary of the statements\<close>

fun is_string :: "jsval \<Rightarrow> bool" where
  "is_string (JStr s) = True"
| "is_string v = False"

text \<open>The keys that lines 339--351 of \<^verbatim>\<open>formatMetric\<close> name.\<close>

definition listed_keys :: "string list" where
  "listed_keys =
     [''max_drawdown_start'', ''max_drawdown_end'', ''annualized_return'', ''max_drawdown'',
      ''win_rate'', ''sharpe_ratio'', ''sortino_ratio'', ''calmar_ratio'', ''profit_factor'',
      ''avg_trade_duration'', ''final_portfolio_value'']"



text \<open>The cells that the chart refresh and the synchronizer never write.\<close>

definition data_of ::
  "app \<Rightarrow> string \<times> signal list \<times> trade list \<times> (string \<times> jsval) list option \<times> jsval" where
  "data_of st = (selectedRunId st, signals st, trades st, metrics st, finalPortfolioValue st)"

text \<open>The visible logical range a pane shows, \<open>None\<close> when it shows none.\<close>

definition range_of :: "app \<Rightarrow> pane \<Rightarrow> range option" where
  "range_of st p = (case chart_of st p of None \<Rightarrow> None | Some c \<Rightarrow> visibleLogicalRange c)"

text \<open>The rendering surface accepts the range on each of the listed panes.\<close>

definition accepted :: "(chart \<Rightarrow> range \<Rightarrow> bool) \<Rightarrow> range \<Rightarrow> pane list \<Rightarrow> app \<Rightarrow> bool" where
  "accepted acc r ps st = list_all (\<lambda>p. case chart_of st p of None \<Rightarrow> True | Some c \<Rightarrow> acc c r) ps"


section \<open>Series and markers\<close>

lemma price_valid_time:
  "price_valid h s \<Longrightarrow> \<exists>ms. Date_getTime h (s_timestamp s) = Some ms \<and> ms \<noteq> 0"
  by (cases "Date_getTime h (s_timestamp s)") (auto simp: price_valid_def)

lemma rsi_valid_time:
  "rsi_valid h s \<Longrightarrow> \<exists>ms. Date_getTime h (s_timestamp s) = Some ms \<and> ms \<noteq> 0"
  by (cases "Date_getTime h (s_timestamp s)") (auto simp: rsi_valid_def)

lemma sorted_wrt_filter_cong:
  assumes "\<And>x y. P x \<Longrightarrow> P y \<Longrightarrow> (f x < f y) = (g x < g y)"
  shows "sorted_wrt (<) (map f (filter P xs)) = sorted_wrt (<) (map g (filter P xs))"
  using assms by (induction xs) auto

lemma seconds_order:
  assumes "Date_getTime h a = Some x" and "Date_getTime h b = Some y"
  shows "(seconds (Date_getTime h a) < seconds (Date_getTime h b)) = (Date_getTime h a < Date_getTime h b)"
  using assms by simp

lemma price_times_increasing:
  "sorted_wrt (<) (map time (priceData h sigs)) =
   sorted_wrt (<) (map (\<lambda>s. Date_getTime h (s_timestamp s)) (filter (price_valid h) sigs))"
proof -
  have "map time (priceData h sigs) =
        map (\<lambda>s. seconds (Date_getTime h (s_timestamp s))) (filter (price_valid h) sigs)"
    by (simp add: priceData_def comp_def)
  moreover have
    "sorted_wrt (<) (map (\<lambda>s. seconds (Date_getTime h (s_timestamp s))) (filter (price_valid h) sigs))
     = sorted_wrt (<) (map (\<lambda>s. Date_getTime h (s_timestamp s)) (filter (price_valid h) sigs))"
    by (rule sorted_wrt_filter_cong) (metis price_valid_time seconds_order)
  ultimately show ?thesis by simp
qed

lemma rsi_times_increasing:
  "sorted_wrt (<) (map time (rsiData h sigs)) =
   sorted_wrt (<) (map (\<lambda>s. Date_getTime h (s_timestamp s)) (filter (rsi_valid h) sigs))"
proof -
  have "map time (rsiData h sigs) =
        map (\<lambda>s. seconds (Date_getTime h (s_timestamp s))) (filter (rsi_valid h) sigs)"
    by (simp add: rsiData_def comp_def)
  moreover have
    "sorted_wrt (<) (map (\<lambda>s. seconds (Date_getTime h (s_timestamp s))) (filter (rsi_valid h) sigs))
     = sorted_wrt (<) (map (\<lambda>s. Date_getTime h (s_timestamp s)) (filter (rsi_valid h) sigs))"
    by (rule sorted_wrt_filter_cong) (metis rsi_valid_time seconds_order)
  ultimately show ?thesis by simp
qed

text \<open>
  C2, as the source has it. The filters of lines 214--218 and 225--229 test the price
  (or RSI) and the timestamp of each record on its own; nothing compares a point with
  the one kept before it. Each series holds one point per valid record, in input order,
  and is strictly increasing in time exactly when the timestamps of the valid records
  are strictly increasing in the input.
\<close>

theorem series_follow_input_order:
  "length (priceData h sigs) = length (filter (price_valid h) sigs)
   \<and> length (rsiData h sigs) = length (filter (rsi_valid h) sigs)
   \<and> map time (priceData h sigs) =
       map (\<lambda>s. seconds (Date_getTime h (s_timestamp s))) (filter (price_valid h) sigs)
   \<and> map time (rsiData h sigs) =
       map (\<lambda>s. seconds (Date_getTime h (s_timestamp s))) (filter (rsi_valid h) sigs)
   \<and> sorted_wrt (<) (map time (priceData h sigs)) =
       sorted_wrt (<) (map (\<lambda>s. Date_getTime h (s_timestamp s)) (filter (price_valid h) sigs))
   \<and> sorted_wrt (<) (map time (rsiData h sigs)) =
       sorted_wrt (<) (map (\<lambda>s. Date_getTime h (s_timestamp s)) (filter (rsi_valid h) sigs))"
  using price_times_increasing [of h sigs] rsi_times_increasing [of h sigs]
  by (simp add: priceData_def rsiData_def comp_def)

text \<open>
  C2 as stated fails: a record whose timestamp repeats the preceding one is kept, and so
  is one whose timestamp is earlier, in both series.
\<close>

theorem duplicate_timestamp_kept:
  "map time (priceData engine [bar1, bar1]) = [Some 1704100500, Some 1704100500]
   \<and> \<not> sorted_wrt (<) (map time (priceData engine [bar1, bar1]))
   \<and> \<not> sorted_wrt (<) (map time (rsiData engine [bar1, bar1]))
   \<and> map time (priceData engine [bar2, bar1]) = [Some 1704100560, Some 1704100500]
   \<and> \<not> sorted_wrt (<) (map time (rsiData engine [bar2, bar1]))"
  by code_simp

lemma seconds_valid: "price_valid h s \<Longrightarrow> seconds (Date_getTime h (s_timestamp s)) \<noteq> None"
  by (cases "Date_getTime h (s_timestamp s)") (simp_all add: price_valid_def)

lemma buy_time_Some: "list_all (\<lambda>m. m_time m \<noteq> None) (buySignals h sigs)"
proof -
  have "m_time m \<noteq> None" if "m \<in> set (buySignals h sigs)" for m
  proof -
    from that obtain s where "price_valid h s"
      and "m_time m = seconds (Date_getTime h (s_timestamp s))"
      by (auto simp: buySignals_def buy_valid_def)
    then show ?thesis using seconds_valid by metis
  qed
  then show ?thesis unfolding list_all_iff by blast
qed

lemma sell_time_Some: "list_all (\<lambda>m. m_time m \<noteq> None) (sellSignals h sigs)"
proof -
  have "m_time m \<noteq> None" if "m \<in> set (sellSignals h sigs)" for m
  proof -
    from that obtain s where "price_valid h s"
      and "m_time m = seconds (Date_getTime h (s_timestamp s))"
      by (auto simp: sellSignals_def sell_valid_def)
    then show ?thesis using seconds_valid by metis
  qed
  then show ?thesis unfolding list_all_iff by blast
qed

text \<open>
  C6, as the source has it. A record gets a marker only if it passes the test of the
  price series (price present and numeric, timestamp parsing to a non-zero instant):
  a BUY marker when \<open>signal = 1\<close>, a SELL marker when \<open>signal = -1\<close>. The list that is
  sorted is the BUY markers followed by the SELL markers, each kind in record order,
  and the sort is stable and ascending in time: the result is sorted, holds exactly
  those markers, and markers of equal time stand as in that list, BUY before SELL,
  whatever the order of their records. Every marker time is a number.
\<close>

theorem signalMarkers_stable_sorted_union:
  "sorted (map m_time (signalMarkers h sigs))
   \<and> mset (signalMarkers h sigs) = mset (buySignals h sigs) + mset (sellSignals h sigs)
   \<and> filter (\<lambda>m. m_time m = t) (signalMarkers h sigs) =
       filter (\<lambda>m. m_time m = t) (buySignals h sigs @ sellSignals h sigs)
   \<and> buySignals h sigs =
       map (\<lambda>s. \<lparr>m_time = seconds (Date_getTime h (s_timestamp s)), position = ''belowBar'',
                  color = ''green'', shape = ''arrowUp'', mtext = JStr ''BUY''\<rparr>)
           (filter (\<lambda>s. s_signal s = JNum (Fin 1) \<and> price_valid h s) sigs)
   \<and> sellSignals h sigs =
       map (\<lambda>s. \<lparr>m_time = seconds (Date_getTime h (s_timestamp s)), position = ''aboveBar'',
                  color = ''red'', shape = ''arrowDown'', mtext = JStr ''SELL''\<rparr>)
           (filter (\<lambda>s. s_signal s = JNum (Fin (- 1)) \<and> price_valid h s) sigs)
   \<and> list_all (\<lambda>m. m_time m \<noteq> None) (signalMarkers h sigs)"
proof -
  have srt: "sorted (map m_time (signalMarkers h sigs))"
    by (simp add: signalMarkers_def)
  have ms: "mset (signalMarkers h sigs) = mset (buySignals h sigs) + mset (sellSignals h sigs)"
    by (simp add: signalMarkers_def)
  have stab: "filter (\<lambda>m. m_time m = t) (signalMarkers h sigs) =
       filter (\<lambda>m. m_time m = t) (buySignals h sigs @ sellSignals h sigs)"
    unfolding signalMarkers_def by (rule sort_key_stable)
  have b: "buySignals h sigs =
       map (\<lambda>s. \<lparr>m_time = seconds (Date_getTime h (s_timestamp s)), position = ''belowBar'',
                  color = ''green'', shape = ''arrowUp'', mtext = JStr ''BUY''\<rparr>)
           (filter (\<lambda>s. s_signal s = JNum (Fin 1) \<and> price_valid h s) sigs)"
    by (simp add: buySignals_def buy_valid_def [abs_def])
  have s: "sellSignals h sigs =
       map (\<lambda>s. \<lparr>m_time = seconds (Date_getTime h (s_timestamp s)), position = ''aboveBar'',
                  color = ''red'', shape = ''arrowDown'', mtext = JStr ''SELL''\<rparr>)
           (filter (\<lambda>s. s_signal s = JNum (Fin (- 1)) \<and> price_valid h s) sigs)"
    by (simp add: sellSignals_def sell_valid_def [abs_def])
  have tm: "list_all (\<lambda>m. m_time m \<noteq> None) (signalMarkers h sigs)"
    using buy_time_Some [of h sigs] sell_time_Some [of h sigs]
    unfolding signalMarkers_def list_all_iff by (metis Un_iff set_append set_sort)
  from srt ms stab b s tm show ?thesis by blast
qed

text \<open>
  C6 as stated fails twice. A sell record followed by a buy record of the same time
  gives the BUY marker first, not the order of the input records; and a buy record
  with a parseable timestamp and no price gets no marker.
\<close>

theorem tie_puts_buy_first_and_unpriced_buy_unmarked:
  "signalMarkers engine [sell15, bar1] =
     [\<lparr>m_time = Some 1704100500, position = ''belowBar'', color = ''green'',
       shape = ''arrowUp'', mtext = JStr ''BUY''\<rparr>,
      \<lparr>m_time = Some 1704100500, position = ''aboveBar'', color = ''red'',
       shape = ''arrowDown'', mtext = JStr ''SELL''\<rparr>]
   \<and> s_signal buy_unpriced = JNum (Fin 1)
   \<and> Date_getTime engine (s_timestamp buy_unpriced) = Some 1704100560000
   \<and> signalMarkers engine [buy_unpriced] = []"
  by (simp add: signalMarkers_def buySignals_def sellSignals_def buy_valid_def sell_valid_def
        price_valid_def isNaN_def engine_def sell15_def bar1_def buy_unpriced_def)


text \<open>
  C7. A trade record that passes the filter of line 258 has a truthy \<^verbatim>\<open>reason\<close>, so
  \<^verbatim>\<open>t.reason || 'Trade'\<close> is the reason and the text \<open>Trade\<close> is never chosen. The trade
  markers are, for the valid records in input order: position \<open>belowBar\<close> and colour
  \<open>green\<close> when the action is \<open>Buy\<close> or \<open>Cover\<close>, \<open>aboveBar\<close> and \<open>red\<close> otherwise, shape
  \<open>circle\<close>, text the record's reason.
\<close>

theorem tradeMarkers_text_is_reason:
  "(trade_valid h t \<longrightarrow>
      js_or (t_reason t) (JStr ''Trade'') = t_reason t
      \<and> trade_marker h t =
          \<lparr>m_time = seconds (Date_getTime h (t_timestamp t)),
           position = (if t_action t = JStr ''Buy'' \<or> t_action t = JStr ''Cover''
                       then ''belowBar'' else ''aboveBar''),
           color = (if t_action t = JStr ''Buy'' \<or> t_action t = JStr ''Cover''
                    then ''green'' else ''red''),
           shape = ''circle'', mtext = t_reason t\<rparr>)
   \<and> tradeMarkers h trs =
       map (\<lambda>t. \<lparr>m_time = seconds (Date_getTime h (t_timestamp t)),
                  position = (if t_action t = JStr ''Buy'' \<or> t_action t = JStr ''Cover''
                              then ''belowBar'' else ''aboveBar''),
                  color = (if t_action t = JStr ''Buy'' \<or> t_action t = JStr ''Cover''
                           then ''green'' else ''red''),
                  shape = ''circle'', mtext = t_reason t\<rparr>)
           (filter (trade_valid h) trs)"
proof -
  have one: "js_or (t_reason u) (JStr ''Trade'') = t_reason u" if "trade_valid h u" for u
    using that by (simp add: trade_valid_def js_or_def)
  have mk: "trade_marker h u =
          \<lparr>m_time = seconds (Date_getTime h (t_timestamp u)),
           position = (if t_action u = JStr ''Buy'' \<or> t_action u = JStr ''Cover''
                       then ''belowBar'' else ''aboveBar''),
           color = (if t_action u = JStr ''Buy'' \<or> t_action u = JStr ''Cover''
                    then ''green'' else ''red''),
           shape = ''circle'', mtext = t_reason u\<rparr>" if "trade_valid h u" for u
    using one [OF that] by (simp add: trade_marker_def buy_or_cover_def)
  have all: "tradeMarkers h trs =
       map (\<lambda>t. \<lparr>m_time = seconds (Date_getTime h (t_timestamp t)),
                  position = (if t_action t = JStr ''Buy'' \<or> t_action t = JStr ''Cover''
                              then ''belowBar'' else ''aboveBar''),
                  color = (if t_action t = JStr ''Buy'' \<or> t_action t = JStr ''Cover''
                           then ''green'' else ''red''),
                  shape = ''circle'', mtext = t_reason t\<rparr>)
           (filter (trade_valid h) trs)"
    unfolding tradeMarkers_def by (rule map_cong) (simp_all add: mk)
  show ?thesis
  proof (intro conjI impI)
    assume v: "trade_valid h t"
    show "js_or (t_reason t) (JStr ''Trade'') = t_reason t" by (rule one [OF v])
    show "trade_marker h t =
          \<lparr>m_time = seconds (Date_getTime h (t_timestamp t)),
           position = (if t_action t = JStr ''Buy'' \<or> t_action t = JStr ''Cover''
                       then ''belowBar'' else ''aboveBar''),
           color = (if t_action t = JStr ''Buy'' \<or> t_action t = JStr ''Cover''
                    then ''green'' else ''red''),
           shape = ''circle'', mtext = t_reason t\<rparr>" by (rule mk [OF v])
  next
    show "tradeMarkers h trs =
       map (\<lambda>t. \<lparr>m_time = seconds (Date_getTime h (t_timestamp t)),
                  position = (if t_action t = JStr ''Buy'' \<or> t_action t = JStr ''Cover''
                              then ''belowBar'' else ''aboveBar''),
                  color = (if t_action t = JStr ''Buy'' \<or> t_action t = JStr ''Cover''
                           then ''green'' else ''red''),
                  shape = ''circle'', mtext = t_reason t\<rparr>)
           (filter (trade_valid h) trs)" by (rule all)
  qed
qed

theorem tradeMarkers_text_is_reason_witness:
  "trade_valid engine fill2
   \<and> js_or (t_reason fill2) (JStr ''Trade'') = t_reason fill2
   \<and> mtext (trade_marker engine fill2) = JStr ''RSI overbought''
   \<and> position (trade_marker engine fill2) = ''aboveBar''
   \<and> map mtext (tradeMarkers engine [fill1, fill_epoch]) = [JStr ''RSI oversold'']"
proof -
  have v: "trade_valid engine fill2"
    by (simp add: trade_valid_def fill2_def engine_def isNaN_def)
  have l: "filter (trade_valid engine) [fill1, fill_epoch] = [fill1]"
    by (simp add: trade_valid_def fill1_def fill_epoch_def engine_def isNaN_def)
  have f: "t_reason fill1 = JStr ''RSI oversold''" "t_reason fill2 = JStr ''RSI overbought''"
    "t_action fill2 = JStr ''Sell''"
    by (simp_all add: fill1_def fill2_def)
  note inst = tradeMarkers_text_is_reason [of engine fill2 "[fill1, fill_epoch]"]
  from inst [THEN conjunct1] v
  have both: "js_or (t_reason fill2) (JStr ''Trade'') = t_reason fill2
      \<and> trade_marker engine fill2 =
          \<lparr>m_time = seconds (Date_getTime engine (t_timestamp fill2)),
           position = (if t_action fill2 = JStr ''Buy'' \<or> t_action fill2 = JStr ''Cover''
                       then ''belowBar'' else ''aboveBar''),
           color = (if t_action fill2 = JStr ''Buy'' \<or> t_action fill2 = JStr ''Cover''
                    then ''green'' else ''red''),
           shape = ''circle'', mtext = t_reason fill2\<rparr>"
    by (rule mp)
  have a: "js_or (t_reason fill2) (JStr ''Trade'') = t_reason fill2"
    by (rule both [THEN conjunct1])
  have b: "mtext (trade_marker engine fill2) = JStr ''RSI overbought''"
    "position (trade_marker engine fill2) = ''aboveBar''"
    by (simp_all add: both [THEN conjunct2] f)
  have c: "map mtext (tradeMarkers engine [fill1, fill_epoch]) = [JStr ''RSI oversold'']"
    by (simp only: inst [THEN conjunct2] l) (simp add: f)
  from v a b c show ?thesis by (intro conjI)
qed

text \<open>
  C10. Validity is the truthiness of \<^verbatim>\<open>new Date(timestamp).getTime()\<close>, and \<open>0\<close> is
  falsy: a signal record whose timestamp parses to epoch millisecond 0 fails every
  filter of lines 213--253, and such a trade record fails the filter of line 258.
  Leaving the record out of the input changes none of the series and marker sets.
\<close>

theorem epoch_zero_record_dropped:
  assumes "Date_getTime h (s_timestamp s) = Some 0"
    and "Date_getTime h (t_timestamp t) = Some 0"
  shows "\<not> price_valid h s \<and> \<not> rsi_valid h s \<and> \<not> trade_valid h t
    \<and> priceData h (xs @ s # ys) = priceData h (xs @ ys)
    \<and> rsiData h (xs @ s # ys) = rsiData h (xs @ ys)
    \<and> buySignals h (xs @ s # ys) = buySignals h (xs @ ys)
    \<and> sellSignals h (xs @ s # ys) = sellSignals h (xs @ ys)
    \<and> signalMarkers h (xs @ s # ys) = signalMarkers h (xs @ ys)
    \<and> tradeMarkers h (us @ t # vs) = tradeMarkers h (us @ vs)"
proof -
  have p: "\<not> price_valid h s" and r: "\<not> rsi_valid h s" and tv: "\<not> trade_valid h t"
    using assms by (simp_all add: price_valid_def rsi_valid_def trade_valid_def)
  have b: "buySignals h (xs @ s # ys) = buySignals h (xs @ ys)"
    and sl: "sellSignals h (xs @ s # ys) = sellSignals h (xs @ ys)"
    using p by (simp_all add: buySignals_def sellSignals_def buy_valid_def sell_valid_def)
  have "signalMarkers h (xs @ s # ys) = signalMarkers h (xs @ ys)"
    unfolding signalMarkers_def b sl ..
  with p r tv b sl show ?thesis
    by (simp add: priceData_def rsiData_def tradeMarkers_def)
qed

theorem epoch_zero_record_dropped_witness:
  "Date_getTime engine (s_timestamp bar_epoch) = Some 0
   \<and> Date_getTime engine (t_timestamp fill_epoch) = Some 0
   \<and> (\<not> price_valid engine bar_epoch \<and> \<not> rsi_valid engine bar_epoch
   \<and> \<not> trade_valid engine fill_epoch
   \<and> priceData engine ([bar1] @ bar_epoch # [bar2]) = priceData engine ([bar1] @ [bar2])
   \<and> rsiData engine ([bar1] @ bar_epoch # [bar2]) = rsiData engine ([bar1] @ [bar2])
   \<and> buySignals engine ([bar1] @ bar_epoch # [bar2]) = buySignals engine ([bar1] @ [bar2])
   \<and> sellSignals engine ([bar1] @ bar_epoch # [bar2]) = sellSignals engine ([bar1] @ [bar2])
   \<and> signalMarkers engine ([bar1] @ bar_epoch # [bar2]) = signalMarkers engine ([bar1] @ [bar2])
   \<and> tradeMarkers engine ([fill1] @ fill_epoch # [fill2]) = tradeMarkers engine ([fill1] @ [fill2]))"
proof -
  have a: "Date_getTime engine (s_timestamp bar_epoch) = Some 0"
    by (simp add: bar_epoch_def engine_def)
  have b: "Date_getTime engine (t_timestamp fill_epoch) = Some 0"
    by (simp add: fill_epoch_def engine_def)
  note inst = epoch_zero_record_dropped [OF a b, of "[bar1]" "[bar2]" "[fill1]" "[fill2]"]
  show ?thesis by (rule conjI [OF a conjI [OF b inst]])
qed

section \<open>Metric formatting\<close>

lemma floor_numeral_div: "\<lfloor>numeral a / numeral b :: rat\<rfloor> = numeral a div numeral b"
  using floor_divide_of_int_eq [of "numeral a" "numeral b", where ?'a = rat] by simp

lemmas toFixed_eval = toFixed_def floor_numeral_div show_nat.simps digit_char_def Let_def

text \<open>
  C8. A value that is \<open>null\<close> (or \<open>undefined\<close>: the test is \<^verbatim>\<open>value == null\<close>) formats as
  \<open>N/A\<close> under every key, before any key is looked at. The three examples: \<open>12.345\<close>
  (the double nearest to it, and the exact decimal as well) under \<open>sharpe_ratio\<close>, \<open>5\<close>
  under \<open>win_rate\<close>, \<open>1000\<close> under \<open>final_portfolio_value\<close>, whose result begins with the
  currency sign U+20B9, the three bytes \<open>E2 82 B9\<close> of the UTF-8 source.
\<close>

theorem formatMetric_null_and_examples:
  "formatMetric h JNull key = JStr ''N/A''
   \<and> formatMetric h JUndefined key = JStr ''N/A''
   \<and> formatMetric h (JNum (Fin (6949617174986097 / 562949953421312))) ''sharpe_ratio'' = JStr ''12.35''
   \<and> formatMetric h (JNum (Fin (12345 / 1000))) ''sharpe_ratio'' = JStr ''12.35''
   \<and> formatMetric h (JNum (Fin 5)) ''win_rate'' = JStr ''5.00%''
   \<and> formatMetric h (JNum (Fin 1000)) ''final_portfolio_value'' =
       JStr [CHR 0xE2, CHR 0x82, CHR 0xB9,
             CHR ''1'', CHR ''0'', CHR ''0'', CHR ''0'', CHR ''.'', CHR ''0'', CHR ''0'']"
proof (intro conjI)
  show "formatMetric h JNull key = JStr ''N/A''"
    by (simp add: formatMetric_def)
  show "formatMetric h JUndefined key = JStr ''N/A''"
    by (simp add: formatMetric_def)
  have a: "toFixed h 2 (Fin (6949617174986097 / 562949953421312)) = ''12.35''"
    by (simp add: toFixed_eval)
  show "formatMetric h (JNum (Fin (6949617174986097 / 562949953421312))) ''sharpe_ratio'' = JStr ''12.35''"
    by (simp add: formatMetric_def a)
  show "formatMetric h (JNum (Fin (12345 / 1000))) ''sharpe_ratio'' = JStr ''12.35''"
    by (simp add: formatMetric_def toFixed_eval)
  have c: "toFixed h 2 (Fin 5) = ''5.00''"
    by (simp add: toFixed_eval)
  show "formatMetric h (JNum (Fin 5)) ''win_rate'' = JStr ''5.00%''"
    by (simp add: formatMetric_def c)
  have d: "toFixed h 2 (Fin 1000) = ''1000.00''"
    by (simp add: toFixed_eval)
  show "formatMetric h (JNum (Fin 1000)) ''final_portfolio_value'' =
       JStr [CHR 0xE2, CHR 0x82, CHR 0xB9,
             CHR ''1'', CHR ''0'', CHR ''0'', CHR ''0'', CHR ''.'', CHR ''0'', CHR ''0'']"
    by (simp add: formatMetric_def rupee_def d)
qed

text \<open>
  C9, as the source has it. \<^verbatim>\<open>formatMetric\<close> returns for every key and every value; for
  a value that is not \<open>null\<close> the result is a string under each of the eleven keys that
  lines 339--351 name, and under any other key (of the declared keys: \<open>total_trades\<close>)
  it is the number \<^verbatim>\<open>Math.round(value)\<close>, not a string: for a finite value the integer
  nearest to it, the larger one on a tie.
\<close>

theorem formatMetric_string_or_rounded_number:
  "(not_nullish v \<and> key \<in> set listed_keys \<longrightarrow> is_string (formatMetric h v key))
   \<and> (not_nullish v \<and> key \<notin> set listed_keys \<longrightarrow>
        formatMetric h v key = JNum (Math_round (ToNumber h v)))
   \<and> (key \<in> set metricDisplay \<and> key \<noteq> ''total_trades'' \<longrightarrow> key \<in> set listed_keys)
   \<and> formatMetric h (JNum (Fin x)) ''total_trades'' = JNum (Fin (of_int \<lfloor>x + 1 / 2\<rfloor>))
   \<and> \<bar>of_int \<lfloor>x + 1 / 2\<rfloor> - x\<bar> \<le> 1 / 2"
proof -
  have a: "is_string (formatMetric h v key)" if "not_nullish v" "key \<in> set listed_keys"
    using that by (auto simp: formatMetric_def listed_keys_def)
  have b: "formatMetric h v key = JNum (Math_round (ToNumber h v))"
    if "not_nullish v" "key \<notin> set listed_keys"
    using that by (simp add: formatMetric_def listed_keys_def)
  have c: "key \<in> set listed_keys" if "key \<in> set metricDisplay" "key \<noteq> ''total_trades''"
    using that by (auto simp: metricDisplay_def listed_keys_def)
  have d: "formatMetric h (JNum (Fin x)) ''total_trades'' = JNum (Fin (of_int \<lfloor>x + 1 / 2\<rfloor>))"
    by (simp add: formatMetric_def)
  have e: "\<bar>of_int \<lfloor>x + 1 / 2\<rfloor> - x\<bar> \<le> 1 / 2"
    by linarith
  show ?thesis
  proof (intro conjI impI)
    assume "not_nullish v \<and> key \<in> set listed_keys"
    then show "is_string (formatMetric h v key)"
      by (rule conjE) (rule a)
  next
    assume "not_nullish v \<and> key \<notin> set listed_keys"
    then show "formatMetric h v key = JNum (Math_round (ToNumber h v))"
      by (rule conjE) (rule b)
  next
    assume "key \<in> set metricDisplay \<and> key \<noteq> ''total_trades''"
    then show "key \<in> set listed_keys"
      by (rule conjE) (rule c)
  next
    show "formatMetric h (JNum (Fin x)) ''total_trades'' = JNum (Fin (of_int \<lfloor>x + 1 / 2\<rfloor>))"
      by (rule d)
  next
    show "\<bar>of_int \<lfloor>x + 1 / 2\<rfloor> - x\<bar> \<le> 1 / 2"
      by (rule e)
  qed
qed

theorem formatMetric_string_or_rounded_number_witness:
  "not_nullish (JNum (Fin (5 / 2))) \<and> ''win_rate'' \<in> set listed_keys
   \<and> is_string (formatMetric engine (JNum (Fin (5 / 2))) ''win_rate'')
   \<and> ''total_trades'' \<notin> set listed_keys
   \<and> formatMetric engine (JNum (Fin (5 / 2))) ''total_trades'' = JNum (Fin 3)
   \<and> ''win_rate'' \<in> set metricDisplay \<and> ''win_rate'' \<noteq> ''total_trades''"
proof -
  have a: "not_nullish (JNum (Fin (5 / 2)))" by simp
  have b: "''win_rate'' \<in> set listed_keys" by (simp add: listed_keys_def)
  have c: "''total_trades'' \<notin> set listed_keys" by (simp add: listed_keys_def)
  have d: "''win_rate'' \<in> set metricDisplay" "''win_rate'' \<noteq> ''total_trades''"
    by (simp_all add: metricDisplay_def)
  have e: "Math_round (ToNumber engine (JNum (Fin (5 / 2)))) = Fin 3"
    by (simp add: floor_numeral_div)
  note i1 = formatMetric_string_or_rounded_number
              [where v = "JNum (Fin (5 / 2))" and key = "''win_rate''" and h = engine]
  note i2 = formatMetric_string_or_rounded_number
              [where v = "JNum (Fin (5 / 2))" and key = "''total_trades''" and h = engine]
  have f: "is_string (formatMetric engine (JNum (Fin (5 / 2))) ''win_rate'')"
    by (rule mp [OF i1 [THEN conjunct1] conjI [OF a b]])
  have "formatMetric engine (JNum (Fin (5 / 2))) ''total_trades''
        = JNum (Math_round (ToNumber engine (JNum (Fin (5 / 2)))))"
    by (rule mp [OF i2 [THEN conjunct2, THEN conjunct1] conjI [OF a c]])
  then have g: "formatMetric engine (JNum (Fin (5 / 2))) ''total_trades'' = JNum (Fin 3)"
    by (simp only: e)
  from a b f c g d show ?thesis by (intro conjI)
qed

text \<open>
  C9 as stated fails: under \<open>total_trades\<close>, a declared key, the result for the value 5
  is the number 5, not a string.
\<close>

theorem total_trades_is_a_number:
  "formatMetric engine (JNum (Fin 5)) ''total_trades'' = JNum (Fin 5)
   \<and> \<not> is_string (formatMetric engine (JNum (Fin 5)) ''total_trades'')
   \<and> ''total_trades'' \<in> set metricDisplay"
proof -
  have a: "formatMetric engine (JNum (Fin 5)) ''total_trades'' = JNum (Fin 5)"
    by (simp add: formatMetric_def floor_numeral_div)
  have b: "''total_trades'' \<in> set metricDisplay"
    by (simp add: metricDisplay_def)
  show ?thesis by (simp add: a b)
qed

section \<open>Chart refresh and run selection\<close>

lemma surface_call_keeps:
  assumes "\<And>q c s. g (put_chart q c s) = g s"
  shows "g (snd (surface_call rej fit p cl st)) = g st"
  using assms by (simp add: surface_call_def split: option.splits)

lemma remove_prior_keeps:
  assumes "\<And>q c s. g (put_chart q c s) = g s" and "\<And>q k s. g (put_ref q k s) = g s"
  shows "g (snd (remove_prior rej fit p st)) = g st"
  using assms by (simp add: remove_prior_def surface_call_def split: option.splits)

lemma add_series_keeps:
  assumes "\<And>q c s. g (put_chart q c s) = g s" and "\<And>q k s. g (put_ref q k s) = g s"
  shows "g (snd (add_series rej fit p col w st)) = g st"
  using assms by (simp add: add_series_def surface_call_def split: option.splits)

lemma on_ref_keeps:
  assumes "\<And>q c s. g (put_chart q c s) = g s"
  shows "g (snd (on_ref rej fit p mk st)) = g st"
  using assms by (simp add: on_ref_def surface_call_def split: option.splits)

lemma fit_pane_keeps:
  assumes "\<And>q c s. g (put_chart q c s) = g s"
  shows "g (snd (fit_pane rej fit p st)) = g st"
  using assms by (simp add: fit_pane_def surface_call_def split: option.splits)

lemma require_price_data_keeps: "g (snd (require_price_data pd st)) = g st"
  by (simp add: require_price_data_def)

lemma run_steps_keeps:
  assumes "\<And>f s. f \<in> set fs \<Longrightarrow> g (snd (f s)) = g s"
  shows "g (snd (run_steps fs st)) = g st"
  using assms
proof (induction fs arbitrary: st)
  case Nil
  then show ?case by simp
next
  case (Cons f fs)
  obtain e st' where r: "f st = (e, st')" by (cases "f st")
  have a: "g st' = g st" using Cons.prems [of f st] r by simp
  show ?case
  proof (cases e)
    case None
    have "g (snd (run_steps fs st')) = g st'"
      by (rule Cons.IH) (simp add: Cons.prems)
    with None r a show ?thesis by simp
  next
    case (Some m)
    with r a show ?thesis by simp
  qed
qed

lemma try_block_keeps:
  assumes c: "\<And>q c s. g (put_chart q c s) = g s" and k: "\<And>q k s. g (put_ref q k s) = g s"
  shows "g (snd (try_block rej h fit st)) = g st"
  unfolding try_block_def Let_def
proof (rule run_steps_keeps)
  fix f s
  assume "f \<in> set
           [remove_prior rej fit Price, remove_prior rej fit Trade, remove_prior rej fit Rsi,
            require_price_data (priceData h (signals st)),
            add_series rej fit Price ''#2962FF'' 2,
            on_ref rej fit Price (\<lambda>c k. SetData c k (priceData h (signals st))),
            on_ref rej fit Price (\<lambda>c k. SetMarkers c k (signalMarkers h (signals st))),
            add_series rej fit Trade ''#2962FF'' 2,
            on_ref rej fit Trade (\<lambda>c k. SetData c k (priceData h (signals st))),
            on_ref rej fit Trade (\<lambda>c k. SetMarkers c k (tradeMarkers h (trades st))),
            add_series rej fit Rsi ''#FF6D00'' 2,
            on_ref rej fit Rsi (\<lambda>c k. SetData c k (rsiData h (signals st))),
            on_ref rej fit Rsi (\<lambda>c k. CreatePriceLine c k (threshold 70 ''red'')),
            on_ref rej fit Rsi (\<lambda>c k. CreatePriceLine c k (threshold 30 ''green'')),
            fit_pane rej fit Price, fit_pane rej fit Trade, fit_pane rej fit Rsi]"
  then consider (rm) p where "f = remove_prior rej fit p"
    | (rq) pd where "f = require_price_data pd"
    | (ad) p col w where "f = add_series rej fit p col w"
    | (on) p mk where "f = on_ref rej fit p mk"
    | (ft) p where "f = fit_pane rej fit p"
    unfolding set_simps insert_iff empty_iff by metis
  then show "g (snd (f s)) = g s"
  proof cases
    case rm
    then show ?thesis by (simp add: remove_prior_keeps [of g, OF c k])
  next
    case rq
    then show ?thesis by (simp add: require_price_data_keeps)
  next
    case ad
    then show ?thesis by (simp add: add_series_keeps [of g, OF c k])
  next
    case on
    then show ?thesis by (simp add: on_ref_keeps [of g, OF c])
  next
    case ft
    then show ?thesis by (simp add: fit_pane_keeps [of g, OF c])
  qed
qed

lemma put_data_of:
  "data_of (put_chart q c s) = data_of s" "data_of (put_ref q k s) = data_of s"
  by (cases q; simp add: data_of_def)+

lemma put_error:
  "error (put_chart q c s) = error s" "error (put_ref q k s) = error s"
  by (cases q; simp)+

lemma try_block_data: "data_of (snd (try_block rej h fit st)) = data_of st"
  by (rule try_block_keeps) (rule put_data_of)+

lemma try_block_error: "error (snd (try_block rej h fit st)) = error st"
  by (rule try_block_keeps) (rule put_error)+

lemma updateCharts_empty: "signals st = [] \<Longrightarrow> updateCharts rej h fit st = st"
  by (simp add: updateCharts_def split: option.splits)

lemma updateCharts_data: "data_of (updateCharts rej h fit st) = data_of st"
proof -
  obtain e st' where t: "try_block rej h fit st = (e, st')"
    by (cases "try_block rej h fit st")
  have "data_of st' = data_of st" using try_block_data [of rej h fit st] t by simp
  then show ?thesis
    by (simp add: updateCharts_def t data_of_def split: option.splits)
qed

lemma updateCharts_keeps:
  "signals (updateCharts rej h fit st) = signals st"
  "trades (updateCharts rej h fit st) = trades st"
  "metrics (updateCharts rej h fit st) = metrics st"
  "finalPortfolioValue (updateCharts rej h fit st) = finalPortfolioValue st"
  "selectedRunId (updateCharts rej h fit st) = selectedRunId st"
  using updateCharts_data [of rej h fit st] by (simp_all add: data_of_def)

lemma updateCharts_error:
  "error (updateCharts rej h fit st) =
     (if charts_ready st \<and> signals st \<noteq> []
      then (case fst (try_block rej h fit st) of
              None \<Rightarrow> error st
            | Some m \<Rightarrow> Some (''Failed to update charts: '' @ m))
      else error st)"
proof -
  obtain e st' where t: "try_block rej h fit st = (e, st')"
    by (cases "try_block rej h fit st")
  have "error st' = error st" using try_block_error [of rej h fit st] t by simp
  then show ?thesis
    by (simp add: updateCharts_def charts_ready_def t split: option.splits)
qed

lemmas refresh_steps =
  try_block_def Let_def remove_prior_def require_price_data_def add_series_def on_ref_def
  fit_pane_def surface_call_def

lemma try_block_accepted:
  assumes "charts_ready st" and "priceData h (signals st) \<noteq> []" and "\<And>cl. rej cl = None"
  shows "fst (try_block rej h fit st) = None"
proof -
  from assms(1) obtain pc tc rc where
    "priceChartInstance st = Some pc" "tradeChartInstance st = Some tc"
    "rsiChartInstance st = Some rc"
    by (auto simp: charts_ready_def)
  then show ?thesis
    using assms(2,3) by (simp add: refresh_steps split: option.splits)
qed




lemmas refresh_eval =
  updateCharts_def refresh_steps run_def mounted_def empty_chart_def accept_calls_def
  removeSeries_def addLineSeries_def setData_def setMarkers_def createPriceLine_def
  on_series_def fitContent_def fit_all_def threshold_def
  priceData_def rsiData_def tradeMarkers_def signalMarkers_def buySignals_def sellSignals_def
  price_valid_def rsi_valid_def trade_valid_def buy_valid_def sell_valid_def trade_marker_def
  buy_or_cover_def js_or_def isNaN_def engine_def bar1_def bar_bad_def fill1_def fill2_def

lemma shown_R1_fields:
  "selectedRunId shown_R1 = ''R1''"
  "signals shown_R1 = [bar1]"
  "trades shown_R1 = [fill1]"
  "metrics shown_R1 = Some [(''total_trades'', JNum (Fin 1))]"
  "finalPortfolioValue shown_R1 = JNum (Fin 1000)"
  "error shown_R1 = None"
  by (simp_all add: shown_R1_def run_def updateCharts_keeps updateCharts_error
        try_block_accepted charts_ready_def accept_calls_def mounted_def)


lemma reselected_R2_eq: "reselected_R2 = shown_R1\<lparr>selectedRunId := ''R2''\<rparr>"
  by (simp add: reselected_R2_def shown_R1_fields)




text \<open>
  C3, as the source has it. Selecting a different run that is not the empty choice only
  records the selection and issues the fetches: signals, trades, metrics, final value
  and the panes stay as they were. Each response then replaces its own piece and leaves
  the others: the signals response leaves trades, metrics and final value, the trades
  response leaves signals, metrics and final value, and so on. Only selecting the empty
  choice clears signals, trades, metrics, final value and error together.
\<close>

theorem selection_keeps_data_until_responses:
  "(r \<noteq> [] \<and> r \<noteq> selectedRunId st \<longrightarrow>
      step rej h fit st (SelectRun r) = st\<lparr>selectedRunId := r\<rparr>)
   \<and> (selectedRunId st \<noteq> [] \<longrightarrow>
        signals (step rej h fit st (SelectRun [])) = []
        \<and> trades (step rej h fit st (SelectRun [])) = []
        \<and> metrics (step rej h fit st (SelectRun [])) = None
        \<and> finalPortfolioValue (step rej h fit st (SelectRun [])) = JNull
        \<and> error (step rej h fit st (SelectRun [])) = None)
   \<and> signals (step rej h fit st (SignalsFetched rid d)) = d
   \<and> trades (step rej h fit st (SignalsFetched rid d)) = trades st
   \<and> metrics (step rej h fit st (SignalsFetched rid d)) = metrics st
   \<and> finalPortfolioValue (step rej h fit st (SignalsFetched rid d)) = finalPortfolioValue st
   \<and> trades (step rej h fit st (TradesFetched rid e)) = e
   \<and> signals (step rej h fit st (TradesFetched rid e)) = signals st
   \<and> metrics (step rej h fit st (TradesFetched rid e)) = metrics st
   \<and> finalPortfolioValue (step rej h fit st (TradesFetched rid e)) = finalPortfolioValue st
   \<and> step rej h fit st (MetricsFetched rid m) = st\<lparr>metrics := Some m, error := None\<rparr>
   \<and> step rej h fit st (PortfolioFetched rid v) = st\<lparr>finalPortfolioValue := v, error := None\<rparr>"
  by (simp add: updateCharts_keeps updateCharts_empty)

theorem selection_keeps_data_until_responses_witness:
  "''R2'' \<noteq> [] \<and> ''R2'' \<noteq> selectedRunId shown_R1
   \<and> step accept_calls engine fit_all shown_R1 (SelectRun ''R2'') =
       shown_R1\<lparr>selectedRunId := ''R2''\<rparr>
   \<and> selectedRunId shown_R1 \<noteq> []
   \<and> signals (step accept_calls engine fit_all shown_R1 (SelectRun [])) = []
   \<and> metrics (step accept_calls engine fit_all shown_R1 (SelectRun [])) = None"
proof -
  have a: "''R2'' \<noteq> []" "''R2'' \<noteq> selectedRunId shown_R1" "selectedRunId shown_R1 \<noteq> []"
    by (simp_all add: shown_R1_fields)
  note inst = selection_keeps_data_until_responses
                [of "''R2''" shown_R1 accept_calls engine fit_all]
  have b: "step accept_calls engine fit_all shown_R1 (SelectRun ''R2'') =
       shown_R1\<lparr>selectedRunId := ''R2''\<rparr>"
    by (rule mp [OF inst [THEN conjunct1] conjI [OF a(1) a(2)]])
  have c: "signals (step accept_calls engine fit_all shown_R1 (SelectRun [])) = []
        \<and> trades (step accept_calls engine fit_all shown_R1 (SelectRun [])) = []
        \<and> metrics (step accept_calls engine fit_all shown_R1 (SelectRun [])) = None
        \<and> finalPortfolioValue (step accept_calls engine fit_all shown_R1 (SelectRun [])) = JNull
        \<and> error (step accept_calls engine fit_all shown_R1 (SelectRun [])) = None"
    by (rule mp [OF inst [THEN conjunct2, THEN conjunct1] a(3)])
  from a(1) a(2) b a(3) c [THEN conjunct1] c [THEN conjunct2, THEN conjunct2, THEN conjunct1]
  show ?thesis by (intro conjI)
qed

lemma mixed_trade_pane:
  "tradeChartInstance mixed_R1_R2 =
     Some \<lparr>series =
            [(2, \<lparr>ls_color = ''#2962FF'', ls_lineWidth = 2,
                  ls_data = [\<lparr>time = Some 1704100500, cvalue = Fin 100\<rparr>],
                  ls_markers =
                    [\<lparr>m_time = Some 1704100560, position = ''aboveBar'', color = ''red'',
                      shape = ''circle'', mtext = JStr ''RSI overbought''\<rparr>],
                  ls_priceLines = []\<rparr>)],
          nextHandle = 3, visibleLogicalRange = Some (0, 0)\<rparr>"
  by (simp add: mixed_R1_R2_def reselected_R2_def shown_R1_def refresh_eval)

text \<open>
  C3 as stated fails: after \<open>R2\<close> is selected the state still holds the signals, trades
  and metrics of \<open>R1\<close>, and once the trades of \<open>R2\<close> arrive the refresh draws the trade
  pane from the signals of \<open>R1\<close> (the point of 09:15) and the trades of \<open>R2\<close> (the marker
  of 09:16).
\<close>

theorem R1_data_survives_selecting_R2:
  "(selectedRunId reselected_R2 = ''R2''
    \<and> signals reselected_R2 = [bar1]
    \<and> trades reselected_R2 = [fill1]
    \<and> metrics reselected_R2 = Some [(''total_trades'', JNum (Fin 1))]
    \<and> priceChartInstance reselected_R2 = priceChartInstance shown_R1
    \<and> selectedRunId mixed_R1_R2 = ''R2''
    \<and> signals mixed_R1_R2 = [bar1]
    \<and> trades mixed_R1_R2 = [fill2]
    \<and> metrics mixed_R1_R2 = Some [(''total_trades'', JNum (Fin 1))])
   \<and> tradeChartInstance mixed_R1_R2 =
       Some \<lparr>series =
              [(2, \<lparr>ls_color = ''#2962FF'', ls_lineWidth = 2,
                    ls_data = [\<lparr>time = Some 1704100500, cvalue = Fin 100\<rparr>],
                    ls_markers =
                      [\<lparr>m_time = Some 1704100560, position = ''aboveBar'', color = ''red'',
                        shape = ''circle'', mtext = JStr ''RSI overbought''\<rparr>],
                    ls_priceLines = []\<rparr>)],
            nextHandle = 3, visibleLogicalRange = Some (0, 0)\<rparr>"
proof -
  have fields: "selectedRunId reselected_R2 = ''R2''
    \<and> signals reselected_R2 = [bar1]
    \<and> trades reselected_R2 = [fill1]
    \<and> metrics reselected_R2 = Some [(''total_trades'', JNum (Fin 1))]
    \<and> priceChartInstance reselected_R2 = priceChartInstance shown_R1
    \<and> selectedRunId mixed_R1_R2 = ''R2''
    \<and> signals mixed_R1_R2 = [bar1]
    \<and> trades mixed_R1_R2 = [fill2]
    \<and> metrics mixed_R1_R2 = Some [(''total_trades'', JNum (Fin 1))]"
    by (simp add: mixed_R1_R2_def reselected_R2_eq shown_R1_fields updateCharts_keeps)
  show ?thesis by (rule conjI [OF fields mixed_trade_pane])
qed
section \<open>Time-scale synchronisation\<close>

lemma put_chart_guard: "isUpdatingTimeScale (put_chart p c st) = isUpdatingTimeScale st"
  by (cases p) simp_all

lemma apply_range_guard:
  "isUpdatingTimeScale (snd (apply_range_state acc r ps st)) = isUpdatingTimeScale st"
  by (induction ps arbitrary: st)
     (simp_all add: setVisibleLogicalRange_def put_chart_guard split: option.splits)

lemma onRangeChange_ignored:
  "isUpdatingTimeScale st \<Longrightarrow> onRangeChange acc src st = (None, st)"
  by (simp add: onRangeChange_def split: option.splits)

lemma guard_is_exception:
  assumes g: "\<not> isUpdatingTimeScale st"
  shows "isUpdatingTimeScale (snd (onRangeChange acc src st)) =
          (fst (onRangeChange acc src st) \<noteq> None)"
proof (cases "chart_of st src")
  case None
  then show ?thesis using g by (simp add: onRangeChange_def)
next
  case sc: (Some sc)
  show ?thesis
  proof (cases "visibleLogicalRange sc")
    case None
    then show ?thesis using g sc by (simp add: onRangeChange_def)
  next
    case (Some r)
    obtain e st2 where ap:
      "apply_range_state acc r (targets src) (st\<lparr>isUpdatingTimeScale := True\<rparr>) = (e, st2)"
      by (cases "apply_range_state acc r (targets src) (st\<lparr>isUpdatingTimeScale := True\<rparr>)")
    have "isUpdatingTimeScale st2"
      using apply_range_guard [of acc r "targets src" "st\<lparr>isUpdatingTimeScale := True\<rparr>"]
      by (simp add: ap)
    then show ?thesis
      using g sc Some ap by (cases e) (simp_all add: onRangeChange_def)
  qed
qed

lemma first_target_rejects:
  assumes "charts_ready st" and "\<not> isUpdatingTimeScale st" and "range_of st src = Some r"
    and "\<not> accepted acc r (take 1 (targets src)) st"
  shows "onRangeChange acc src st = (Some RenderFailure, st\<lparr>isUpdatingTimeScale := True\<rparr>)"
proof -
  from assms(1) obtain pc tc rc where
    "priceChartInstance st = Some pc" "tradeChartInstance st = Some tc"
    "rsiChartInstance st = Some rc"
    by (auto simp: charts_ready_def)
  then show ?thesis
    using assms
    by (cases src)
       (auto simp: onRangeChange_def range_of_def accepted_def setVisibleLogicalRange_def
          split: option.splits)
qed

lemma exception_iff_rejected:
  assumes "charts_ready st" and "\<not> isUpdatingTimeScale st" and "range_of st src = Some r"
  shows "(fst (onRangeChange acc src st) = None) = accepted acc r (targets src) st"
proof -
  from assms(1) obtain pc tc rc where
    "priceChartInstance st = Some pc" "tradeChartInstance st = Some tc"
    "rsiChartInstance st = Some rc"
    by (auto simp: charts_ready_def)
  then show ?thesis
    using assms
    by (cases src)
       (auto simp: onRangeChange_def range_of_def accepted_def setVisibleLogicalRange_def
          split: option.splits)
qed

text \<open>
  C4, as the source has it. A notification that finds the guard set returns at line
  157 and leaves it. One that finds it clear sets it at line 158, before the range is
  applied to any target: if the first target rejects the range, the callback ends with
  the state as it was but for the guard, now set. An exception is thrown exactly when
  a target rejects the range; the guard is clear again (line 165) on every exit without
  an exception, and set on the exit by one.
\<close>

theorem guard_set_at_start_released_without_throw:
  "(isUpdatingTimeScale st \<longrightarrow> onRangeChange acc src st = (None, st))
   \<and> (\<not> isUpdatingTimeScale st \<longrightarrow>
        isUpdatingTimeScale (snd (onRangeChange acc src st)) =
          (fst (onRangeChange acc src st) \<noteq> None))
   \<and> (charts_ready st \<and> \<not> isUpdatingTimeScale st \<and> range_of st src = Some r \<longrightarrow>
        (fst (onRangeChange acc src st) = None) = accepted acc r (targets src) st)
   \<and> (charts_ready st \<and> \<not> isUpdatingTimeScale st \<and> range_of st src = Some r
        \<and> \<not> accepted acc r (take 1 (targets src)) st \<longrightarrow>
        onRangeChange acc src st = (Some RenderFailure, st\<lparr>isUpdatingTimeScale := True\<rparr>))"
proof (intro conjI impI)
  assume "isUpdatingTimeScale st"
  then show "onRangeChange acc src st = (None, st)" by (rule onRangeChange_ignored)
next
  assume "\<not> isUpdatingTimeScale st"
  then show "isUpdatingTimeScale (snd (onRangeChange acc src st)) =
          (fst (onRangeChange acc src st) \<noteq> None)"
    by (rule guard_is_exception)
next
  assume "charts_ready st \<and> \<not> isUpdatingTimeScale st \<and> range_of st src = Some r"
  then show "(fst (onRangeChange acc src st) = None) = accepted acc r (targets src) st"
    by (elim conjE) (rule exception_iff_rejected)
next
  assume "charts_ready st \<and> \<not> isUpdatingTimeScale st \<and> range_of st src = Some r
        \<and> \<not> accepted acc r (take 1 (targets src)) st"
  then show "onRangeChange acc src st = (Some RenderFailure, st\<lparr>isUpdatingTimeScale := True\<rparr>)"
    by (elim conjE) (rule first_target_rejects)
qed

lemma price_zoomed_eval:
  "\<not> isUpdatingTimeScale price_zoomed"
  "charts_ready price_zoomed"
  "range_of price_zoomed Price = Some (0, 10)"
  "accepted accept_all (0, 10) (targets Price) price_zoomed"
  "fst (onRangeChange accept_all Price price_zoomed) = None"
  "fst (onRangeChange reject_all Price price_zoomed) = Some RenderFailure"
  "\<not> accepted reject_all (0, 10) (take 1 (targets Price)) price_zoomed"
  by (simp_all add: price_zoomed_def mounted_def ranged_chart_def empty_chart_def charts_ready_def
        range_of_def accepted_def accept_all_def reject_all_def onRangeChange_def
        setVisibleLogicalRange_def)

theorem guard_set_at_start_released_without_throw_witness:
  "\<not> isUpdatingTimeScale price_zoomed
   \<and> (charts_ready price_zoomed \<and> \<not> isUpdatingTimeScale price_zoomed
       \<and> range_of price_zoomed Price = Some (0, 10))
   \<and> accepted accept_all (0, 10) (targets Price) price_zoomed
   \<and> fst (onRangeChange accept_all Price price_zoomed) = None
   \<and> \<not> isUpdatingTimeScale (snd (onRangeChange accept_all Price price_zoomed))
   \<and> \<not> accepted reject_all (0, 10) (take 1 (targets Price)) price_zoomed
   \<and> onRangeChange reject_all Price price_zoomed =
       (Some RenderFailure, price_zoomed\<lparr>isUpdatingTimeScale := True\<rparr>)
   \<and> isUpdatingTimeScale after_throw
   \<and> onRangeChange accept_all Rsi after_throw = (None, after_throw)"
proof -
  note g = price_zoomed_eval(1) and rdy = price_zoomed_eval(2) and rng = price_zoomed_eval(3)
    and ok = price_zoomed_eval(4) and no = price_zoomed_eval(7)
  have pre: "charts_ready price_zoomed \<and> \<not> isUpdatingTimeScale price_zoomed
       \<and> range_of price_zoomed Price = Some (0, 10)"
    by (rule conjI [OF rdy conjI [OF g rng]])
  note i1 = guard_set_at_start_released_without_throw [of price_zoomed accept_all Price "(0, 10)"]
  note i2 = guard_set_at_start_released_without_throw [of price_zoomed reject_all Price "(0, 10)"]
  have "(fst (onRangeChange accept_all Price price_zoomed) = None)
          = accepted accept_all (0, 10) (targets Price) price_zoomed"
    by (rule mp [OF i1 [THEN conjunct2, THEN conjunct2, THEN conjunct1] pre])
  with ok have a: "fst (onRangeChange accept_all Price price_zoomed) = None" by simp
  have "isUpdatingTimeScale (snd (onRangeChange accept_all Price price_zoomed)) =
          (fst (onRangeChange accept_all Price price_zoomed) \<noteq> None)"
    by (rule mp [OF i1 [THEN conjunct2, THEN conjunct1] g])
  with a have b: "\<not> isUpdatingTimeScale (snd (onRangeChange accept_all Price price_zoomed))"
    by simp
  have c: "onRangeChange reject_all Price price_zoomed =
       (Some RenderFailure, price_zoomed\<lparr>isUpdatingTimeScale := True\<rparr>)"
    by (rule mp [OF i2 [THEN conjunct2, THEN conjunct2, THEN conjunct2]
                  conjI [OF rdy conjI [OF g conjI [OF rng no]]]])
  have d: "isUpdatingTimeScale after_throw"
    by (simp add: after_throw_def c)
  note i3 = guard_set_at_start_released_without_throw [of after_throw accept_all Rsi]
  have e: "onRangeChange accept_all Rsi after_throw = (None, after_throw)"
    by (rule mp [OF i3 [THEN conjunct1] d])
  show ?thesis
    by (rule conjI [OF g conjI [OF pre conjI [OF ok conjI [OF a conjI [OF b
          conjI [OF no conjI [OF c conjI [OF d e]]]]]]]])
qed

text \<open>
  C4 as stated fails on the path it names. When applying the range to a target throws,
  the callback ends by the exception between lines 158 and 165: the guard stays set,
  and every later notification, from any pane, returns at line 157.
\<close>

theorem guard_left_set_after_throw:
  "\<not> isUpdatingTimeScale price_zoomed
   \<and> fst (onRangeChange reject_all Price price_zoomed) = Some RenderFailure
   \<and> isUpdatingTimeScale (snd (onRangeChange reject_all Price price_zoomed))
   \<and> onRangeChange accept_all Price after_throw = (None, after_throw)
   \<and> onRangeChange accept_all Trade after_throw = (None, after_throw)"
proof -
  note a = price_zoomed_eval(1) and b = price_zoomed_eval(6)
  have c: "isUpdatingTimeScale (snd (onRangeChange reject_all Price price_zoomed))"
    using guard_is_exception [OF a, of reject_all Price] b by simp
  then have d: "isUpdatingTimeScale after_throw" by (simp add: after_throw_def)
  from a b c onRangeChange_ignored [OF d, of accept_all Price]
    onRangeChange_ignored [OF d, of accept_all Trade]
  show ?thesis by (intro conjI)
qed

text \<open>
  C5, as the source has it. With the three charts in place, a notification from any
  pane that finds the guard set changes nothing. One that finds it clear reads the
  source pane's visible logical range; when the source has no range (line 160) nothing
  is applied and the state is as before; when it has one and the rendering surface
  accepts it on the two targets, all three panes show that range afterwards and the
  guard is clear. The statement is the same for each of the three source panes.
\<close>

theorem broadcast_applies_source_range:
  assumes "charts_ready st"
  shows "(isUpdatingTimeScale st \<longrightarrow> onRangeChange acc src st = (None, st))
   \<and> (\<not> isUpdatingTimeScale st \<and> range_of st src = None \<longrightarrow>
        onRangeChange acc src st = (None, st))
   \<and> (\<not> isUpdatingTimeScale st \<and> range_of st src = Some r
        \<and> accepted acc r (targets src) st \<longrightarrow>
        fst (onRangeChange acc src st) = None
        \<and> range_of (snd (onRangeChange acc src st)) Price = Some r
        \<and> range_of (snd (onRangeChange acc src st)) Trade = Some r
        \<and> range_of (snd (onRangeChange acc src st)) Rsi = Some r
        \<and> \<not> isUpdatingTimeScale (snd (onRangeChange acc src st)))"
proof -
  from assms obtain pc tc rc where c:
    "priceChartInstance st = Some pc" "tradeChartInstance st = Some tc"
    "rsiChartInstance st = Some rc"
    by (auto simp: charts_ready_def)
  show ?thesis
    using assms c
    by (cases src)
       (auto simp: onRangeChange_def range_of_def accepted_def setVisibleLogicalRange_def
          split: option.splits)
qed

theorem broadcast_applies_source_range_witness:
  "charts_ready price_zoomed \<and> \<not> isUpdatingTimeScale price_zoomed
   \<and> range_of price_zoomed Price = Some (0, 10)
   \<and> accepted accept_all (0, 10) (targets Price) price_zoomed
   \<and> range_of price_zoomed Trade = None
   \<and> (fst (onRangeChange accept_all Price price_zoomed) = None
      \<and> range_of (snd (onRangeChange accept_all Price price_zoomed)) Price = Some (0, 10)
      \<and> range_of (snd (onRangeChange accept_all Price price_zoomed)) Trade = Some (0, 10)
      \<and> range_of (snd (onRangeChange accept_all Price price_zoomed)) Rsi = Some (0, 10)
      \<and> \<not> isUpdatingTimeScale (snd (onRangeChange accept_all Price price_zoomed)))"
proof -
  note a = price_zoomed_eval(2) and b = price_zoomed_eval(1) and c = price_zoomed_eval(3)
    and d = price_zoomed_eval(4)
  have e: "range_of price_zoomed Trade = None"
    by (simp add: price_zoomed_def mounted_def empty_chart_def range_of_def)
  note inst = broadcast_applies_source_range [OF a, of accept_all Price "(0, 10)"]
  have f: "fst (onRangeChange accept_all Price price_zoomed) = None
      \<and> range_of (snd (onRangeChange accept_all Price price_zoomed)) Price = Some (0, 10)
      \<and> range_of (snd (onRangeChange accept_all Price price_zoomed)) Trade = Some (0, 10)
      \<and> range_of (snd (onRangeChange accept_all Price price_zoomed)) Rsi = Some (0, 10)
      \<and> \<not> isUpdatingTimeScale (snd (onRangeChange accept_all Price price_zoomed))"
    by (rule mp [OF inst [THEN conjunct2, THEN conjunct2] conjI [OF b conjI [OF c d]]])
  show ?thesis
    by (rule conjI [OF a conjI [OF b conjI [OF c conjI [OF d conjI [OF e f]]]]])
qed

text \<open>
  C5 as stated fails when the source pane shows no range: nothing is applied, and the
  other two panes keep a range that is not the source's.
\<close>

theorem missing_range_is_not_applied:
  "charts_ready price_blank \<and> \<not> isUpdatingTimeScale price_blank
   \<and> range_of price_blank Price = None
   \<and> onRangeChange accept_all Price price_blank = (None, price_blank)
   \<and> range_of price_blank Trade = Some (0, 10)
   \<and> range_of price_blank Rsi = Some (0, 10)"
  by (simp add: price_blank_def mounted_def ranged_chart_def empty_chart_def charts_ready_def
        range_of_def onRangeChange_def)
end
